theory Spec2Isabelle
  imports Main "HOL-Library.Char_ord" "HOL-Library.List_Lexorder"
begin

section \<open>JavaScript values, objects and errors\<close>

text \<open>
  The values that travel between the route handlers, the data-access classes and the
  database driver: \<^verbatim>\<open>undefined\<close>, \<^verbatim>\<open>null\<close>, booleans, integers, strings, arrays and
  plain objects. An object is the list of its own enumerable properties in the order
  \<^verbatim>\<open>Object.keys\<close> walks them.
\<close>

datatype jsval =
    Undefined
  | Null
  | Bool bool
  | Num int
  | Str string
  | Arr "jsval list"
  | Obj "(string \<times> jsval) list"

type_synonym obj = "(string \<times> jsval) list"

text \<open>\<^verbatim>\<open>expressError.js\<close>: the error classes the code throws. \<open>TypeError\<close> is the
  JavaScript runtime's own, \<open>DbError\<close> is an error raised by the database driver.\<close>

datatype error =
    BadRequestError string
  | NotFoundError string
  | TypeError
  | DbError

text \<open>JavaScript truthiness, as the conditional operator and \<^verbatim>\<open>||\<close> read a value.\<close>

fun truthy :: "jsval \<Rightarrow> bool" where
  "truthy Undefined = False"
| "truthy Null = False"
| "truthy (Bool b) = b"
| "truthy (Num n) = (n \<noteq> 0)"
| "truthy (Str s) = (s \<noteq> [])"
| "truthy (Arr _) = True"
| "truthy (Obj _) = True"

text \<open>Property read \<^verbatim>\<open>o[k]\<close> on an object: \<^verbatim>\<open>undefined\<close> when there is no such property.\<close>

definition fld :: "obj \<Rightarrow> string \<Rightarrow> jsval" where
  "fld ob k = (case map_of ob k of None \<Rightarrow> Undefined | Some v \<Rightarrow> v)"

subsection \<open>Decimal numerals\<close>

definition digit_char :: "nat \<Rightarrow> char" where
  "digit_char d = ''0123456789'' ! d"

text \<open>What a template literal prints for a non-negative integer.\<close>

fun string_of_nat :: "nat \<Rightarrow> string" where
  "string_of_nat n =
     (if n < 10 then [digit_char n] else string_of_nat (n div 10) @ [digit_char (n mod 10)])"

declare string_of_nat.simps [simp del]

text \<open>\<^verbatim>\<open>Number.prototype.toString\<close> on an integer.\<close>

definition string_of_int :: "int \<Rightarrow> string" where
  "string_of_int n =
     (if n < 0 then CHR ''-'' # string_of_nat (nat (- n)) else string_of_nat (nat n))"

text \<open>\<^verbatim>\<open>Array.prototype.join\<close> on an array of strings.\<close>

fun join :: "string \<Rightarrow> string list \<Rightarrow> string" where
  "join sep [] = []"
| "join sep [x] = x"
| "join sep (x # y # ys) = x @ sep @ join sep (y # ys)"

section \<open>helpers/sql.js\<close>

record partial_update =
  setCols :: string
  values_of :: "jsval list"

text \<open>
  The translation table is an object literal of its caller, from field names to column
  names; it is modelled by its own entries, \<open>None\<close> where it has none for a name. Its
  prototype is \<^verbatim>\<open>Object.prototype\<close>, and the property read \<^verbatim>\<open>jsToSql[colName]\<close> follows
  the prototype chain: for a name that is no entry of the table but a member of
  \<^verbatim>\<open>Object.prototype\<close> it yields that member. \<open>object_prototype\<close> holds the members and,
  for each, the text a template literal prints for it: the source text of a built-in
  function as the engine prints it, and \<^verbatim>\<open>[object Object]\<close> for the prototype object
  that \<^verbatim>\<open>__proto__\<close> reads.
\<close>

definition native_function :: "string \<Rightarrow> string" where
  "native_function name = ''function '' @ name @ ''() { [native code] }''"

definition object_prototype :: "string \<rightharpoonup> string" where
  "object_prototype name =
     (if name = ''constructor'' then Some (native_function ''Object'')
      else if name \<in> set [''__defineGetter__'', ''__defineSetter__'', ''hasOwnProperty'',
                           ''__lookupGetter__'', ''__lookupSetter__'', ''isPrototypeOf'',
                           ''propertyIsEnumerable'', ''toString'', ''valueOf'',
                           ''toLocaleString'']
      then Some (native_function name)
      else if name = ''__proto__'' then Some ''[object Object]''
      else None)"

text \<open>
  \<^verbatim>\<open>jsToSql[colName] || colName\<close>, as the template literal prints it. An entry of the
  table shadows the prototype; the empty string is falsy, so \<^verbatim>\<open>||\<close> falls through on
  it as it does on \<^verbatim>\<open>undefined\<close>. Every member of \<^verbatim>\<open>Object.prototype\<close> is truthy.
\<close>

definition sql_name :: "(string \<rightharpoonup> string) \<Rightarrow> string \<Rightarrow> string" where
  "sql_name jsToSql colName =
     (case jsToSql colName of
        Some c \<Rightarrow> if c \<noteq> [] then c else colName
      | None \<Rightarrow>
          (case object_prototype colName of
             None \<Rightarrow> colName
           | Some printed \<Rightarrow> printed))"

text \<open>
  \<^verbatim>\<open>
  function sqlForPartialUpdate(dataToUpdate, jsToSql) {
    const keys = Object.keys(dataToUpdate);
    if (keys.length === 0) throw new BadRequestError("No data");
    const cols = keys.map(
      (colName, idx) => `"${jsToSql[colName] || colName}"=$${idx + 1}`);
    return { setCols: cols.join(", "), values: Object.values(dataToUpdate) };
  }
  \<close>
\<close>

definition sqlForPartialUpdate :: "obj \<Rightarrow> (string \<rightharpoonup> string) \<Rightarrow> error + partial_update" where
  "sqlForPartialUpdate dataToUpdate jsToSql =
     (let keys = map fst dataToUpdate in
      if length keys = 0 then Inl (BadRequestError ''No data'')
      else
        let cols = map (\<lambda>(colName, idx).
                     [CHR 0x22] @ sql_name jsToSql colName @ [CHR 0x22] @ ''=$''
                       @ string_of_nat (idx + 1))
                   (zip keys [0..<length keys])
        in Inr \<lparr>setCols = join '', '' cols, values_of = map snd dataToUpdate\<rparr>)"

section \<open>The database\<close>

text \<open>
  The two tables, with the columns the SQL of the data-access classes names. An
  unquoted identifier is folded to lower case by the database, so \<^verbatim>\<open>company_Handle\<close>
  in the statements of \<^verbatim>\<open>Job\<close> and \<^verbatim>\<open>company_handle\<close> in \<^verbatim>\<open>Company.get\<close> are the one
  column \<^verbatim>\<open>company_handle\<close>. The schema file is not among the sources; the column types
  follow the data model of the specification (salary, equity and the logo are
  nullable; the employee count is kept nullable here, which only widens the tables the
  theorems speak about).
\<close>

record job_row =
  job_id :: int
  title :: string
  salary :: "int option"
  equity :: "string option"
  company_handle :: string

record company_row =
  handle :: string
  name :: string
  description :: string
  num_employees :: "int option"
  logo_url :: "string option"

record db =
  jobs :: "job_row list"
  companies :: "company_row list"
  next_job_id :: int

subsection \<open>Columns as JavaScript values\<close>

definition js_int :: "int option \<Rightarrow> jsval" where
  "js_int v = (case v of None \<Rightarrow> Null | Some n \<Rightarrow> Num n)"

definition js_text :: "string option \<Rightarrow> jsval" where
  "js_text v = (case v of None \<Rightarrow> Null | Some s \<Rightarrow> Str s)"

text \<open>What the driver returns for a column of a row; \<^verbatim>\<open>undefined\<close> for a name that is
  no column of the table.\<close>

definition job_col :: "job_row \<Rightarrow> string \<Rightarrow> jsval" where
  "job_col r c =
     (if c = ''id'' then Num (job_id r)
      else if c = ''title'' then Str (title r)
      else if c = ''salary'' then js_int (salary r)
      else if c = ''equity'' then js_text (equity r)
      else if c = ''company_handle'' then Str (company_handle r)
      else Undefined)"

definition company_col :: "company_row \<Rightarrow> string \<Rightarrow> jsval" where
  "company_col r c =
     (if c = ''handle'' then Str (handle r)
      else if c = ''name'' then Str (name r)
      else if c = ''description'' then Str (description r)
      else if c = ''num_employees'' then js_int (num_employees r)
      else if c = ''logo_url'' then js_text (logo_url r)
      else Undefined)"

text \<open>\<^verbatim>\<open>SELECT title, salary, equity, company_Handle AS "companyHandle"\<close>: the select list of
  every statement of \<^verbatim>\<open>Job\<close> that returns rows.\<close>

definition job_view :: "job_row \<Rightarrow> obj" where
  "job_view r =
     [(''title'', job_col r ''title''),
      (''salary'', job_col r ''salary''),
      (''equity'', job_col r ''equity''),
      (''companyHandle'', job_col r ''company_handle'')]"

text \<open>\<^verbatim>\<open>SELECT handle, name, description, num_employees AS "numEmployees",
  logo_url AS "logoUrl"\<close>.\<close>

definition company_view :: "company_row \<Rightarrow> obj" where
  "company_view r =
     [(''handle'', company_col r ''handle''),
      (''name'', company_col r ''name''),
      (''description'', company_col r ''description''),
      (''numEmployees'', company_col r ''num_employees''),
      (''logoUrl'', company_col r ''logo_url'')]"

subsection \<open>Lower case\<close>

text \<open>\<^verbatim>\<open>String.prototype.toLowerCase\<close> and SQL's \<^verbatim>\<open>LOWER\<close>, on the letters A to Z.
  Every other character is left as it is: the case of letters outside ASCII, which
  depends on the locale of the database, is not modelled.\<close>

definition lower_char :: "char \<Rightarrow> char" where
  "lower_char c =
     (case map_of (zip ''ABCDEFGHIJKLMNOPQRSTUVWXYZ'' ''abcdefghijklmnopqrstuvwxyz'') c of
        None \<Rightarrow> c
      | Some l \<Rightarrow> l)"

definition toLowerCase :: "string \<Rightarrow> string" where
  "toLowerCase s = map lower_char s"

subsection \<open>The LIKE operator\<close>

text \<open>
  A pattern is read left to right: \<^verbatim>\<open>%\<close> stands for any run of characters, \<^verbatim>\<open>_\<close> for
  any one character, a backslash takes the next character literally, and a pattern
  that ends in a lone backslash is an error.
\<close>

datatype like_token = AnyRun | AnyChar | Lit char

fun like_tokens :: "string \<Rightarrow> like_token list option" where
  "like_tokens [] = Some []"
| "like_tokens (c # cs) =
     (if c = CHR 0x5C then
        (case cs of
           [] \<Rightarrow> None
         | d # ds \<Rightarrow> map_option ((#) (Lit d)) (like_tokens ds))
      else if c = CHR ''%'' then map_option ((#) AnyRun) (like_tokens cs)
      else if c = CHR ''_'' then map_option ((#) AnyChar) (like_tokens cs)
      else map_option ((#) (Lit c)) (like_tokens cs))"

fun like_match :: "like_token list \<Rightarrow> string \<Rightarrow> bool" where
  "like_match [] s = (s = [])"
| "like_match (Lit c # p) [] = False"
| "like_match (Lit c # p) (x # xs) = (x = c \<and> like_match p xs)"
| "like_match (AnyChar # p) [] = False"
| "like_match (AnyChar # p) (x # xs) = like_match p xs"
| "like_match (AnyRun # p) [] = like_match p []"
| "like_match (AnyRun # p) (x # xs) = (like_match p (x # xs) \<or> like_match (AnyRun # p) xs)"

subsection \<open>Integer parameters\<close>

text \<open>
  How a comparison with an integer column reads its parameter. The driver sends
  \<^verbatim>\<open>null\<close> and \<^verbatim>\<open>undefined\<close> as SQL NULL and every other value as text, which the
  database reads as a 32-bit integer: white space, an optional sign next to a decimal
  numeral, white space, and the number within the range of the type. So a number is
  read as itself and a string (what a query string or a path segment holds) as the
  numeral it spells, when they are in range; a boolean, an array and an object are
  sent as text that is no numeral. What the database does not read as an integer it
  refuses with an error. The model reads the decimal numerals, which every version of
  the server reads alike; the further spellings that newer servers accept
  (hexadecimal, octal and binary numerals, digit separators) it answers as refused.
\<close>

datatype int_param = NotAnInt | SqlNull | IntVal int

definition digit_val :: "char \<Rightarrow> nat option" where
  "digit_val c = map_of (zip ''0123456789'' [0..<10]) c"

definition is_space :: "char \<Rightarrow> bool" where
  "is_space c = (c \<in> set [CHR 0x20, CHR 0x09, CHR 0x0A, CHR 0x0B, CHR 0x0C, CHR 0x0D])"

definition trim :: "string \<Rightarrow> string" where
  "trim s = rev (dropWhile is_space (rev (dropWhile is_space s)))"

fun digits_int :: "int \<Rightarrow> string \<Rightarrow> int option" where
  "digits_int acc [] = Some acc"
| "digits_int acc (c # cs) =
     (case digit_val c of None \<Rightarrow> None | Some d \<Rightarrow> digits_int (10 * acc + int d) cs)"

definition int_of_string :: "string \<Rightarrow> int option" where
  "int_of_string s =
     (case trim s of
        [] \<Rightarrow> None
      | c # cs \<Rightarrow>
          if c = CHR ''-'' then
            (if cs = [] then None else map_option (\<lambda>n. - n) (digits_int 0 cs))
          else if c = CHR ''+'' then
            (if cs = [] then None else digits_int 0 cs)
          else digits_int 0 (c # cs))"

definition in_int4 :: "int \<Rightarrow> bool" where
  "in_int4 n = (- 2147483648 \<le> n \<and> n \<le> 2147483647)"

definition int4 :: "int \<Rightarrow> int_param" where
  "int4 n = (if in_int4 n then IntVal n else NotAnInt)"

fun as_int :: "jsval \<Rightarrow> int_param" where
  "as_int Undefined = SqlNull"
| "as_int Null = SqlNull"
| "as_int (Num n) = int4 n"
| "as_int (Str s) = (case int_of_string s of None \<Rightarrow> NotAnInt | Some n \<Rightarrow> int4 n)"
| "as_int (Bool _) = NotAnInt"
| "as_int (Arr _) = NotAnInt"
| "as_int (Obj _) = NotAnInt"

text \<open>\<^verbatim>\<open>column >= $1\<close> and \<^verbatim>\<open>column <= $1\<close> on a nullable integer column: a NULL column
  value satisfies neither.\<close>

definition col_ge :: "int option \<Rightarrow> int \<Rightarrow> bool" where
  "col_ge v n = (case v of None \<Rightarrow> False | Some k \<Rightarrow> n \<le> k)"

definition col_le :: "int option \<Rightarrow> int \<Rightarrow> bool" where
  "col_le v n = (case v of None \<Rightarrow> False | Some k \<Rightarrow> k \<le> n)"

text \<open>The key of \<^verbatim>\<open>ORDER BY\<close> on a nullable integer column. The statements that use it
  select no row with a NULL in that column.\<close>

definition int_key :: "int option \<Rightarrow> int" where
  "int_key v = (case v of None \<Rightarrow> 0 | Some k \<Rightarrow> k)"

subsection \<open>JavaScript equality and types\<close>

text \<open>\<^verbatim>\<open>===\<close> on two values. Two arrays or objects read from two different result sets
  are never the same reference.\<close>

fun strict_eq :: "jsval \<Rightarrow> jsval \<Rightarrow> bool" where
  "strict_eq Undefined Undefined = True"
| "strict_eq Null Null = True"
| "strict_eq (Bool a) (Bool b) = (a = b)"
| "strict_eq (Num a) (Num b) = (a = b)"
| "strict_eq (Str a) (Str b) = (a = b)"
| "strict_eq _ _ = False"

text \<open>\<^verbatim>\<open>typeof v === "boolean"\<close>.\<close>

fun is_boolean :: "jsval \<Rightarrow> bool" where
  "is_boolean (Bool _) = True"
| "is_boolean _ = False"

subsection \<open>Statements\<close>

text \<open>
  \<^verbatim>\<open>ORDER BY\<close> is a stable sort of the selected rows on the key, strings compared
  character by character (the collation of the database is not among the sources, and
  SQL leaves the order of rows with equal keys open). \<^verbatim>\<open>WHERE\<close> keeps the rows of the
  table that satisfy the condition. The driver sends \<^verbatim>\<open>undefined\<close> as NULL
  (\<open>bind_param\<close>).
\<close>

definition bind_param :: "jsval \<Rightarrow> jsval" where
  "bind_param v = (if v = Undefined then Null else v)"

text \<open>
  How a text column and a \<^verbatim>\<open>NUMERIC\<close> column read a parameter. The driver sends a
  string as it is, a number as its decimal numeral and a boolean as \<^verbatim>\<open>true\<close> or
  \<^verbatim>\<open>false\<close>; a text column stores what it is sent. A \<^verbatim>\<open>NUMERIC\<close> column reads a
  numeral, and the driver returns its value as a string (the tests store equity
  \<^verbatim>\<open>"0.5"\<close> and read \<^verbatim>\<open>"0.5"\<close> back). The model holds the numerals that are returned
  as they were written: an optional minus sign, digits with no needless leading zero
  and, optionally, a point and digits, the value not a negative zero. Outside the
  model are the other spellings of a number that the database reads and returns in
  another spelling, and the arrays and objects that the driver sends to a text column
  in a text form of its own; the model answers them as it answers a value the database
  refuses.
\<close>

datatype text_param = NotText | TextNull | TextVal string

fun as_text :: "jsval \<Rightarrow> text_param" where
  "as_text Undefined = TextNull"
| "as_text Null = TextNull"
| "as_text (Str s) = TextVal s"
| "as_text (Num n) = TextVal (string_of_int n)"
| "as_text (Bool b) = TextVal (if b then ''true'' else ''false'')"
| "as_text (Arr _) = NotText"
| "as_text (Obj _) = NotText"

definition is_digit :: "char \<Rightarrow> bool" where
  "is_digit c = (digit_val c \<noteq> None)"

definition unsigned_numeral :: "string \<Rightarrow> bool" where
  "unsigned_numeral s =
     (let whole = takeWhile is_digit s; rest = dropWhile is_digit s
      in whole \<noteq> [] \<and> (whole = ''0'' \<or> hd whole \<noteq> CHR ''0'')
         \<and> (case rest of
               [] \<Rightarrow> True
             | c # frac \<Rightarrow> c = CHR ''.'' \<and> frac \<noteq> [] \<and> list_all is_digit frac))"

definition canonical_numeral :: "string \<Rightarrow> bool" where
  "canonical_numeral s =
     (case s of
        [] \<Rightarrow> False
      | c # cs \<Rightarrow>
          if c = CHR ''-''
          then unsigned_numeral cs \<and> list_ex (\<lambda>d. is_digit d \<and> d \<noteq> CHR ''0'') cs
          else unsigned_numeral (c # cs))"

fun as_numeric :: "jsval \<Rightarrow> text_param" where
  "as_numeric Undefined = TextNull"
| "as_numeric Null = TextNull"
| "as_numeric (Str s) = (if canonical_numeral s then TextVal s else NotText)"
| "as_numeric (Num n) = TextVal (string_of_int n)"
| "as_numeric (Bool _) = NotText"
| "as_numeric (Arr _) = NotText"
| "as_numeric (Obj _) = NotText"

text \<open>
  The assignment of a value to a column of \<^verbatim>\<open>jobs\<close>: \<open>None\<close> when the database refuses
  it, because the name is no column of the table or the value is none the column
  reads; the change of the row otherwise. Column names are compared as they are
  written: the statements of the update functions quote them, and a quoted name is
  not folded to lower case. \<^verbatim>\<open>id\<close>, \<^verbatim>\<open>title\<close> and \<^verbatim>\<open>company_handle\<close> hold no NULL.
\<close>

definition job_set :: "string \<Rightarrow> jsval \<Rightarrow> (job_row \<Rightarrow> job_row) option" where
  "job_set c v =
     (if c = ''id'' then
        (case as_int v of IntVal n \<Rightarrow> Some (\<lambda>r. r\<lparr>job_id := n\<rparr>) | _ \<Rightarrow> None)
      else if c = ''title'' then
        (case as_text v of TextVal s \<Rightarrow> Some (\<lambda>r. r\<lparr>title := s\<rparr>) | _ \<Rightarrow> None)
      else if c = ''salary'' then
        (case as_int v of
           IntVal n \<Rightarrow> Some (\<lambda>r. r\<lparr>salary := Some n\<rparr>)
         | SqlNull \<Rightarrow> Some (\<lambda>r. r\<lparr>salary := None\<rparr>)
         | NotAnInt \<Rightarrow> None)
      else if c = ''equity'' then
        (case as_numeric v of
           TextVal s \<Rightarrow> Some (\<lambda>r. r\<lparr>equity := Some s\<rparr>)
         | TextNull \<Rightarrow> Some (\<lambda>r. r\<lparr>equity := None\<rparr>)
         | NotText \<Rightarrow> None)
      else if c = ''company_handle'' then
        (case as_text v of TextVal s \<Rightarrow> Some (\<lambda>r. r\<lparr>company_handle := s\<rparr>) | _ \<Rightarrow> None)
      else None)"

text \<open>Likewise for \<^verbatim>\<open>companies\<close>; \<^verbatim>\<open>handle\<close>, \<^verbatim>\<open>name\<close> and \<^verbatim>\<open>description\<close> hold no
  NULL.\<close>

definition company_set :: "string \<Rightarrow> jsval \<Rightarrow> (company_row \<Rightarrow> company_row) option" where
  "company_set c v =
     (if c = ''handle'' then
        (case as_text v of TextVal s \<Rightarrow> Some (\<lambda>r. r\<lparr>handle := s\<rparr>) | _ \<Rightarrow> None)
      else if c = ''name'' then
        (case as_text v of TextVal s \<Rightarrow> Some (\<lambda>r. r\<lparr>name := s\<rparr>) | _ \<Rightarrow> None)
      else if c = ''description'' then
        (case as_text v of TextVal s \<Rightarrow> Some (\<lambda>r. r\<lparr>description := s\<rparr>) | _ \<Rightarrow> None)
      else if c = ''num_employees'' then
        (case as_int v of
           IntVal n \<Rightarrow> Some (\<lambda>r. r\<lparr>num_employees := Some n\<rparr>)
         | SqlNull \<Rightarrow> Some (\<lambda>r. r\<lparr>num_employees := None\<rparr>)
         | NotAnInt \<Rightarrow> None)
      else if c = ''logo_url'' then
        (case as_text v of
           TextVal s \<Rightarrow> Some (\<lambda>r. r\<lparr>logo_url := Some s\<rparr>)
         | TextNull \<Rightarrow> Some (\<lambda>r. r\<lparr>logo_url := None\<rparr>)
         | NotText \<Rightarrow> None)
      else None)"

text \<open>
  The rows a condition \<^verbatim>\<open>id = $k\<close> or \<^verbatim>\<open>handle = $k\<close> selects, given the parameter:
  \<open>None\<close> when the database refuses the parameter. A comparison with NULL selects no
  row.
\<close>

definition with_id :: "jsval \<Rightarrow> (job_row \<Rightarrow> bool) option" where
  "with_id v =
     (case as_int v of
        NotAnInt \<Rightarrow> None
      | SqlNull \<Rightarrow> Some (\<lambda>r. False)
      | IntVal i \<Rightarrow> Some (\<lambda>r. job_id r = i))"

definition with_handle :: "jsval \<Rightarrow> (company_row \<Rightarrow> bool) option" where
  "with_handle v =
     (case as_text v of
        NotText \<Rightarrow> None
      | TextNull \<Rightarrow> Some (\<lambda>r. False)
      | TextVal h \<Rightarrow> Some (\<lambda>r. handle r = h))"

subsection \<open>The text of an UPDATE\<close>

text \<open>
  The update functions build the text of their statement: \<^verbatim>\<open>setCols\<close>, which
  \<^verbatim>\<open>sqlForPartialUpdate\<close> makes of the field names of the body, goes into it between
  \<^verbatim>\<open>SET\<close> and \<^verbatim>\<open>WHERE\<close> as it is. The model reads this text as the database does.
  \<open>scan_set\<close> reads a list of assignments \<^verbatim>\<open>"column"=value\<close> separated by a comma and
  a blank, where a value is a parameter \<^verbatim>\<open>$k\<close> or a string constant \<^verbatim>\<open>'...'\<close>: the
  name of a column runs from its opening double quote to the next double quote,
  whatever the field name was that it came from. The text of a body whose field names
  hold no double quote has this form. A text of another form (a doubled quote, an
  expression, a comment) is outside the model; \<open>scan_set\<close> yields \<open>None\<close> for it, and
  the model answers as it answers a statement the database refuses.
\<close>

text \<open>The number a parameter \<^verbatim>\<open>$k\<close> names: the value of its decimal digits.\<close>

fun digits_val :: "nat \<Rightarrow> string \<Rightarrow> nat option" where
  "digits_val acc [] = Some acc"
| "digits_val acc (c # cs) =
     (case digit_val c of None \<Rightarrow> None | Some d \<Rightarrow> digits_val (10 * acc + d) cs)"

datatype set_value = Param nat | Constant string

datatype scan_state =
    AtColumn
  | InColumn string
  | AtEquals string
  | AtValue string
  | InParam string string
  | InConstant string string
  | AfterConstant string string
  | AtBlank

fun scan_set ::
  "scan_state \<Rightarrow> (string \<times> set_value) list \<Rightarrow> string \<Rightarrow> (string \<times> set_value) list option"
  where
  "scan_set AtColumn found (c # cs) =
     (if c = CHR 0x22 then scan_set (InColumn []) found cs else None)"
| "scan_set (InColumn acc) found (c # cs) =
     (if c = CHR 0x22 then scan_set (AtEquals (rev acc)) found cs
      else scan_set (InColumn (c # acc)) found cs)"
| "scan_set (AtEquals col) found (c # cs) =
     (if c = CHR ''='' then scan_set (AtValue col) found cs else None)"
| "scan_set (AtValue col) found (c # cs) =
     (if c = CHR ''$'' then scan_set (InParam col []) found cs
      else if c = CHR 0x27 then scan_set (InConstant col []) found cs
      else None)"
| "scan_set (InParam col ds) found (c # cs) =
     (if is_digit c then scan_set (InParam col (c # ds)) found cs
      else if c = CHR '','' \<and> ds \<noteq> [] then
        (case digits_val 0 (rev ds) of
           None \<Rightarrow> None
         | Some k \<Rightarrow> scan_set AtBlank ((col, Param k) # found) cs)
      else None)"
| "scan_set (InConstant col acc) found (c # cs) =
     (if c = CHR 0x27 then scan_set (AfterConstant col (rev acc)) found cs
      else if c = CHR 0x5C then None
      else scan_set (InConstant col (c # acc)) found cs)"
| "scan_set (AfterConstant col s) found (c # cs) =
     (if c = CHR '','' then scan_set AtBlank ((col, Constant s) # found) cs else None)"
| "scan_set AtBlank found (c # cs) =
     (if c = CHR '' '' then scan_set AtColumn found cs else None)"
| "scan_set (InParam col ds) found [] =
     (if ds = [] then None
      else map_option (\<lambda>k. rev ((col, Param k) # found)) (digits_val 0 (rev ds)))"
| "scan_set (AfterConstant col s) found [] = Some (rev ((col, Constant s) # found))"
| "scan_set AtColumn found [] = None"
| "scan_set (InColumn acc) found [] = None"
| "scan_set (AtEquals col) found [] = None"
| "scan_set (AtValue col) found [] = None"
| "scan_set (InConstant col acc) found [] = None"
| "scan_set AtBlank found [] = None"

text \<open>\<^verbatim>\<open>$k\<close>, the text of \<^verbatim>\<open>handleVarIdx\<close>.\<close>

definition read_param :: "string \<Rightarrow> nat option" where
  "read_param s =
     (case s of
        [] \<Rightarrow> None
      | c # ds \<Rightarrow> if c = CHR ''$'' \<and> ds \<noteq> [] then digits_val 0 ds else None)"

text \<open>
  \<^verbatim>\<open>UPDATE t SET setText WHERE key = whereVar RETURNING ...\<close> with its parameters. The
  database refuses the statement when it names a parameter that is not supplied or
  leaves a supplied one out, when it assigns a column twice, and when a column or the
  key refuses its value. A parameter named twice takes the type of the first column;
  the model holds the statements that name each parameter once. Otherwise every row
  that the condition selects is assigned the values, a constant as the string it
  spells; each of these rows is returned with a mark, for \<^verbatim>\<open>RETURNING\<close>.
\<close>

definition value_of :: "jsval list \<Rightarrow> set_value \<Rightarrow> jsval" where
  "value_of params x =
     (case x of Param k \<Rightarrow> bind_param (params ! (k - 1)) | Constant s \<Rightarrow> Str s)"

definition params_of :: "(string \<times> set_value) list \<Rightarrow> nat list" where
  "params_of targets = concat (map (\<lambda>(c, x). case x of Param k \<Rightarrow> [k] | Constant s \<Rightarrow> []) targets)"

definition sql_update ::
  "(string \<Rightarrow> jsval \<Rightarrow> ('r \<Rightarrow> 'r) option) \<Rightarrow> (jsval \<Rightarrow> ('r \<Rightarrow> bool) option) \<Rightarrow> string \<Rightarrow> string
     \<Rightarrow> jsval list \<Rightarrow> 'r list \<Rightarrow> ('r \<times> bool) list option" where
  "sql_update assign selects setText whereVar params rows =
     (case scan_set AtColumn [] setText of
        None \<Rightarrow> None
      | Some targets \<Rightarrow>
          (case read_param whereVar of
             None \<Rightarrow> None
           | Some w \<Rightarrow>
               let used = params_of targets @ [w] in
               if \<not> (distinct used \<and> length used = length params
                      \<and> list_all (\<lambda>k. 1 \<le> k \<and> k \<le> length params) used)
               then None
               else if \<not> distinct (map fst targets) then None
               else
                 (case those (map (\<lambda>(c, x). assign c (value_of params x)) targets) of
                    None \<Rightarrow> None
                  | Some changes \<Rightarrow>
                      (case selects (bind_param (params ! (w - 1))) of
                         None \<Rightarrow> None
                       | Some selected \<Rightarrow>
                           Some (map (\<lambda>r. if selected r
                                          then (fold (\<lambda>change. change) changes r, True)
                                          else (r, False)) rows)))))"


section \<open>models/job.js\<close>

text \<open>
  Every function of the class takes the database state last. A function that only
  reads returns its result; one that writes returns the result and the new state.
  A thrown error is \<open>Inl\<close>. The guard \<^verbatim>\<open>if (!jobRes) throw new NotFoundError(...)\<close> of
  the filters tests the result object of the driver, which is never falsy, so it has
  no branch in the model.

  The declared constraints of the schema (keys, references, checks), which the sources
  do not hold, are the parameter \<open>valid\<close> of the writing functions: a statement whose
  resulting state the schema refuses raises \<open>DbError\<close> and changes nothing.
\<close>

text \<open>\<^verbatim>\<open>
  static async create({ title, salary, equity, companyHandle }) {
    const result = await db.query(
      `INSERT INTO jobs (title, salary, equity, company_Handle)
       VALUES ($1, $2, $3, $4)
       RETURNING title, salary, equity, company_Handle AS "companyHandle" `,
      [title, salary, equity, companyHandle]);
    const job = result.rows[0];
    return job;
  }\<close>
  The id of the new row is generated by the database.
\<close>

definition Job_create :: "(db \<Rightarrow> bool) \<Rightarrow> obj \<Rightarrow> db \<Rightarrow> (error + obj) \<times> db" where
  "Job_create valid data db =
     (let params = [(''title'', fld data ''title''), (''salary'', fld data ''salary''),
                    (''equity'', fld data ''equity''),
                    (''company_handle'', fld data ''companyHandle'')]
      in case those (map (\<lambda>(c, v). job_set c (bind_param v)) params) of
           None \<Rightarrow> (Inl DbError, db)
         | Some changes \<Rightarrow>
             let r = fold (\<lambda>change. change) changes
                       \<lparr>job_id = next_job_id db, title = [], salary = None, equity = None,
                        company_handle = []\<rparr>;
                 db' = db\<lparr>jobs := jobs db @ [r], next_job_id := next_job_id db + 1\<rparr>
             in if valid db' then (Inr (job_view r), db') else (Inl DbError, db))"

text \<open>\<^verbatim>\<open>
  static async findAll() {
    const jobsRes = await db.query(
      `SELECT title, salary, equity, company_Handle AS "companyHandle"
       FROM jobs ORDER BY title`);
    return jobsRes.rows;
  }\<close>\<close>

definition Job_findAll :: "db \<Rightarrow> obj list" where
  "Job_findAll db = map job_view (sort_key title (jobs db))"

text \<open>\<^verbatim>\<open>
  static async title_filter(str) {
    const lower = str.toLowerCase();
    const jobRes = await db.query(
      `SELECT ... FROM jobs WHERE LOWER(title) LIKE $1 ORDER BY title`,
      [`%${lower}%`]);
    return jobRes.rows;
  }\<close>
  Only a string has \<^verbatim>\<open>toLowerCase\<close>; the call throws a \<open>TypeError\<close> on any other value.
\<close>

definition Job_title_filter :: "jsval \<Rightarrow> db \<Rightarrow> error + obj list" where
  "Job_title_filter str db =
     (case str of
        Str s \<Rightarrow>
          (let lower = toLowerCase s in
           case like_tokens (''%'' @ lower @ ''%'') of
             None \<Rightarrow> Inl DbError
           | Some pat \<Rightarrow>
               Inr (map job_view
                     (sort_key title
                       (filter (\<lambda>r. like_match pat (toLowerCase (title r))) (jobs db)))))
      | _ \<Rightarrow> Inl TypeError)"

text \<open>\<^verbatim>\<open>
  static async minSalary_filter(num) {
    const jobRes = await db.query(
      `SELECT ... FROM jobs WHERE salary>=$1 ORDER BY salary`, [num]);
    return jobRes.rows;
  }\<close>\<close>

definition Job_minSalary_filter :: "jsval \<Rightarrow> db \<Rightarrow> error + obj list" where
  "Job_minSalary_filter num db =
     (case as_int num of
        NotAnInt \<Rightarrow> Inl DbError
      | SqlNull \<Rightarrow> Inr []
      | IntVal n \<Rightarrow>
          Inr (map job_view
                (sort_key (\<lambda>r. int_key (salary r))
                  (filter (\<lambda>r. col_ge (salary r) n) (jobs db)))))"

text \<open>\<^verbatim>\<open>
  static async hasEquity_filter(hasEquity) {
    if (hasEquity && typeof hasEquity !== "boolean") {
      throw new BadRequestError("hasEquity must be a boolean value");
    }
    const jobRes = await db.query(
      `SELECT ... FROM jobs ${hasEquity ? "WHERE equity IS NOT NULL" : ""}
       ORDER BY title`);
    return jobRes.rows;
  }\<close>\<close>

definition Job_hasEquity_filter :: "jsval \<Rightarrow> db \<Rightarrow> error + obj list" where
  "Job_hasEquity_filter hasEquity db =
     (if truthy hasEquity \<and> \<not> is_boolean hasEquity
      then Inl (BadRequestError ''hasEquity must be a boolean value'')
      else Inr (map job_view
                 (sort_key title
                   (if truthy hasEquity then filter (\<lambda>r. equity r \<noteq> None) (jobs db)
                    else jobs db))))"

text \<open>\<^verbatim>\<open>
  static async multi_filter(str, minSalary, hasEquity) {
    const titleRes = str ? await Job.title_filter(str) : await Job.findAll();
    const minSalaryRes = minSalary
      ? await Job.minSalary_filter(minSalary) : await Job.findAll();
    const equityRes = hasEquity
      ? await Job.hasEquity_filter(hasEquity) : await Job.findAll();
    const common = titleRes.filter(
      (job) =>
        minSalaryRes.some((minSalaryJob) => minSalaryJob.title === job.title) &&
        equityRes.some((hasEquityJob) => hasEquityJob.title === job.title));
    return common;
  }\<close>
  The three queries run one after the other; the first that throws ends the call.
\<close>

definition Job_titleRes :: "jsval \<Rightarrow> db \<Rightarrow> error + obj list" where
  "Job_titleRes str db = (if truthy str then Job_title_filter str db else Inr (Job_findAll db))"

definition Job_minSalaryRes :: "jsval \<Rightarrow> db \<Rightarrow> error + obj list" where
  "Job_minSalaryRes minSalary db =
     (if truthy minSalary then Job_minSalary_filter minSalary db else Inr (Job_findAll db))"

definition Job_equityRes :: "jsval \<Rightarrow> db \<Rightarrow> error + obj list" where
  "Job_equityRes hasEquity db =
     (if truthy hasEquity then Job_hasEquity_filter hasEquity db else Inr (Job_findAll db))"

definition Job_multi_filter :: "jsval \<Rightarrow> jsval \<Rightarrow> jsval \<Rightarrow> db \<Rightarrow> error + obj list" where
  "Job_multi_filter str minSalary hasEquity db =
     (case Job_titleRes str db of
        Inl e \<Rightarrow> Inl e
      | Inr titleRes \<Rightarrow>
     (case Job_minSalaryRes minSalary db of
        Inl e \<Rightarrow> Inl e
      | Inr minSalaryRes \<Rightarrow>
     (case Job_equityRes hasEquity db of
        Inl e \<Rightarrow> Inl e
      | Inr equityRes \<Rightarrow>
          Inr (filter
                (\<lambda>job.
                   list_ex (\<lambda>minSalaryJob. strict_eq (fld minSalaryJob ''title'') (fld job ''title''))
                     minSalaryRes
                   \<and> list_ex (\<lambda>hasEquityJob. strict_eq (fld hasEquityJob ''title'') (fld job ''title''))
                       equityRes)
                titleRes))))"

text \<open>\<^verbatim>\<open>
  static async get(id) {
    const jobRes = await db.query(
      `SELECT title, salary, equity, company_Handle AS "companyHandle"
       FROM jobs WHERE id=$1`, [id]);
    const job = jobRes.rows[0];
    if (!job) throw new NotFoundError(`Job not found`);
    return job;
  }\<close>
  The key is whatever the caller passes: the route passes the path segment, a string.
  The database reads it as an integer and refuses what it cannot read so (\<open>with_id\<close>).
\<close>

definition Job_get :: "jsval \<Rightarrow> db \<Rightarrow> error + obj" where
  "Job_get key db =
     (case with_id (bind_param key) of
        None \<Rightarrow> Inl DbError
      | Some selected \<Rightarrow>
          (case map job_view (filter selected (jobs db)) of
             [] \<Rightarrow> Inl (NotFoundError ''Job not found'')
           | job # _ \<Rightarrow> Inr job))"

text \<open>\<^verbatim>\<open>
  static async update(id, data) {
    const { setCols, values } = sqlForPartialUpdate(data, {
      companyHandle: "company_Handle" });
    const handleVarIdx = "$" + (values.length + 1);
    const querySql = `UPDATE jobs SET ${setCols} WHERE id = ${handleVarIdx}
                      RETURNING title, salary, equity, company_Handle AS "companyHandle"`;
    const result = await db.query(querySql, [...values, id]);
    const job = result.rows[0];
    if (!job) throw new NotFoundError(`Job not found`);
    return job;
  }\<close>
  The column names inside \<^verbatim>\<open>setCols\<close> are quoted, so they are not folded to lower case:
  \<^verbatim>\<open>"company_Handle"\<close> names no column of the table. (The unquoted \<^verbatim>\<open>company_Handle\<close> of
  the \<^verbatim>\<open>RETURNING\<close> list is folded and names the column \<^verbatim>\<open>company_handle\<close>.)
\<close>

definition Job_jsToSql :: "string \<rightharpoonup> string" where
  "Job_jsToSql = [''companyHandle'' \<mapsto> ''company_Handle'']"

definition Job_update :: "(db \<Rightarrow> bool) \<Rightarrow> jsval \<Rightarrow> obj \<Rightarrow> db \<Rightarrow> (error + obj) \<times> db" where
  "Job_update valid key data db =
     (case sqlForPartialUpdate data Job_jsToSql of
        Inl e \<Rightarrow> (Inl e, db)
      | Inr pu \<Rightarrow>
          let handleVarIdx = ''$'' @ string_of_nat (length (values_of pu) + 1) in
          (case sql_update job_set with_id (setCols pu) handleVarIdx (values_of pu @ [key])
                  (jobs db) of
             None \<Rightarrow> (Inl DbError, db)
           | Some marked \<Rightarrow>
               let db' = db\<lparr>jobs := map fst marked\<rparr>;
                   rows = map (\<lambda>(r, _). job_view r) (filter snd marked)
               in (case rows of
                     [] \<Rightarrow> (Inl (NotFoundError ''Job not found''), db')
                   | job # _ \<Rightarrow> if valid db' then (Inr job, db') else (Inl DbError, db))))"

text \<open>\<^verbatim>\<open>
  static async remove(id) {
    const result = await db.query(
      `DELETE FROM jobs WHERE id = $1 RETURNING id`, [id]);
    const job = result.rows[0];
    if (!job) throw new NotFoundError(`Job not found`);
  }\<close>\<close>

definition Job_remove :: "jsval \<Rightarrow> db \<Rightarrow> (error + unit) \<times> db" where
  "Job_remove key db =
     (case with_id (bind_param key) of
        None \<Rightarrow> (Inl DbError, db)
      | Some selected \<Rightarrow>
          let deleted = filter selected (jobs db);
              db' = db\<lparr>jobs := filter (\<lambda>r. \<not> selected r) (jobs db)\<rparr>
          in case deleted of
               [] \<Rightarrow> (Inl (NotFoundError ''Job not found''), db')
             | _ # _ \<Rightarrow> (Inr (), db'))"

section \<open>models/company.js\<close>

text \<open>\<^verbatim>\<open>
  static async findAll() {
    const companiesRes = await db.query(
      `SELECT handle, name, description, num_employees AS "numEmployees",
              logo_url AS "logoUrl"
       FROM companies ORDER BY name`);
    return companiesRes.rows;
  }\<close>\<close>

definition Company_findAll :: "db \<Rightarrow> obj list" where
  "Company_findAll db = map company_view (sort_key name (companies db))"

text \<open>\<^verbatim>\<open>
  static async name_filter(str) {
    const lower = str.toLowerCase();
    const companiesRes = await db.query(
      `SELECT ... FROM companies WHERE LOWER(name) LIKE $1 ORDER BY name`,
      [`%${lower}%`]);
    return companiesRes.rows;
  }\<close>\<close>

definition Company_name_filter :: "jsval \<Rightarrow> db \<Rightarrow> error + obj list" where
  "Company_name_filter str db =
     (case str of
        Str s \<Rightarrow>
          (let lower = toLowerCase s in
           case like_tokens (''%'' @ lower @ ''%'') of
             None \<Rightarrow> Inl DbError
           | Some pat \<Rightarrow>
               Inr (map company_view
                     (sort_key name
                       (filter (\<lambda>r. like_match pat (toLowerCase (name r))) (companies db)))))
      | _ \<Rightarrow> Inl TypeError)"

text \<open>\<^verbatim>\<open>
  static async minEmployees_filter(num) {
    const companiesRes = await db.query(
      `SELECT ... FROM companies WHERE num_employees>=$1 ORDER BY num_employees`,
      [num]);
    return companiesRes.rows;
  }\<close>\<close>

definition Company_minEmployees_filter :: "jsval \<Rightarrow> db \<Rightarrow> error + obj list" where
  "Company_minEmployees_filter num db =
     (case as_int num of
        NotAnInt \<Rightarrow> Inl DbError
      | SqlNull \<Rightarrow> Inr []
      | IntVal n \<Rightarrow>
          Inr (map company_view
                (sort_key (\<lambda>r. int_key (num_employees r))
                  (filter (\<lambda>r. col_ge (num_employees r) n) (companies db)))))"

text \<open>\<^verbatim>\<open>
  static async maxEmployees_filter(num) {
    const companiesRes = await db.query(
      `SELECT ... FROM companies WHERE num_employees<=$1 ORDER BY num_employees`,
      [num]);
    return companiesRes.rows;
  }\<close>\<close>

definition Company_maxEmployees_filter :: "jsval \<Rightarrow> db \<Rightarrow> error + obj list" where
  "Company_maxEmployees_filter num db =
     (case as_int num of
        NotAnInt \<Rightarrow> Inl DbError
      | SqlNull \<Rightarrow> Inr []
      | IntVal n \<Rightarrow>
          Inr (map company_view
                (sort_key (\<lambda>r. int_key (num_employees r))
                  (filter (\<lambda>r. col_le (num_employees r) n) (companies db)))))"

text \<open>\<^verbatim>\<open>
  static async multi_filter(str, min, max) {
    const nameResults = str ? await Company.name_filter(str) : await Company.findAll();
    const minResults = min
      ? await Company.minEmployees_filter(min) : await Company.findAll();
    const maxResults = max
      ? await Company.maxEmployees_filter(max) : await Company.findAll();
    const common = nameResults.filter(
      (company) =>
        minResults.some((minCompany) => minCompany.name === company.name) &&
        maxResults.some((maxCompany) => maxCompany.name === company.name));
    return common;
  }\<close>\<close>

definition Company_nameResults :: "jsval \<Rightarrow> db \<Rightarrow> error + obj list" where
  "Company_nameResults str db =
     (if truthy str then Company_name_filter str db else Inr (Company_findAll db))"

definition Company_minResults :: "jsval \<Rightarrow> db \<Rightarrow> error + obj list" where
  "Company_minResults min' db =
     (if truthy min' then Company_minEmployees_filter min' db else Inr (Company_findAll db))"

definition Company_maxResults :: "jsval \<Rightarrow> db \<Rightarrow> error + obj list" where
  "Company_maxResults max' db =
     (if truthy max' then Company_maxEmployees_filter max' db else Inr (Company_findAll db))"

definition Company_multi_filter :: "jsval \<Rightarrow> jsval \<Rightarrow> jsval \<Rightarrow> db \<Rightarrow> error + obj list" where
  "Company_multi_filter str min' max' db =
     (case Company_nameResults str db of
        Inl e \<Rightarrow> Inl e
      | Inr nameResults \<Rightarrow>
     (case Company_minResults min' db of
        Inl e \<Rightarrow> Inl e
      | Inr minResults \<Rightarrow>
     (case Company_maxResults max' db of
        Inl e \<Rightarrow> Inl e
      | Inr maxResults \<Rightarrow>
          Inr (filter
                (\<lambda>company.
                   list_ex (\<lambda>minCompany. strict_eq (fld minCompany ''name'') (fld company ''name''))
                     minResults
                   \<and> list_ex (\<lambda>maxCompany. strict_eq (fld maxCompany ''name'') (fld company ''name''))
                       maxResults)
                nameResults))))"


text \<open>\<^verbatim>\<open>
  static async update(handle, data) {
    const { setCols, values } = sqlForPartialUpdate(data, {
      numEmployees: "num_employees", logoUrl: "logo_url" });
    const handleVarIdx = "$" + (values.length + 1);
    const querySql = `UPDATE companies SET ${setCols} WHERE handle = ${handleVarIdx}
                      RETURNING handle, name, description,
                                num_employees AS "numEmployees", logo_url AS "logoUrl"`;
    const result = await db.query(querySql, [...values, handle]);
    const company = result.rows[0];
    if (!company) throw new NotFoundError(`No company: ${handle}`);
    return company;
  }\<close>\<close>

definition Company_jsToSql :: "string \<rightharpoonup> string" where
  "Company_jsToSql = [''numEmployees'' \<mapsto> ''num_employees'', ''logoUrl'' \<mapsto> ''logo_url'']"

definition Company_update :: "(db \<Rightarrow> bool) \<Rightarrow> string \<Rightarrow> obj \<Rightarrow> db \<Rightarrow> (error + obj) \<times> db" where
  "Company_update valid h data db =
     (case sqlForPartialUpdate data Company_jsToSql of
        Inl e \<Rightarrow> (Inl e, db)
      | Inr pu \<Rightarrow>
          let handleVarIdx = ''$'' @ string_of_nat (length (values_of pu) + 1) in
          (case sql_update company_set with_handle (setCols pu) handleVarIdx
                  (values_of pu @ [Str h]) (companies db) of
             None \<Rightarrow> (Inl DbError, db)
           | Some marked \<Rightarrow>
               let db' = db\<lparr>companies := map fst marked\<rparr>;
                   rows = map (\<lambda>(r, _). company_view r) (filter snd marked)
               in (case rows of
                     [] \<Rightarrow> (Inl (NotFoundError (''No company: '' @ h)), db')
                   | company # _ \<Rightarrow>
                       if valid db' then (Inr company, db') else (Inl DbError, db))))"


section \<open>routes/jobs.js\<close>

text \<open>The query string of a request, as \<^verbatim>\<open>req.query\<close> holds it: a parameter that is
  absent reads \<^verbatim>\<open>undefined\<close>, one that is present is a string.\<close>

record jobs_query =
  q_title :: jsval
  q_minSalary :: jsval
  q_hasEquity :: jsval

text \<open>\<^verbatim>\<open>
  router.get("/", async function (req, res, next) {
    try {
      let hasEquity = req.query.hasEquity === 'true';
      let jobs = await Job.multi_filter(
        req.query.title, req.query.minSalary, hasEquity);
      return res.json({ jobs });
    } catch (err) {
      return next(err);
    }
  });\<close>\<close>

definition jobs_get :: "jobs_query \<Rightarrow> db \<Rightarrow> error + obj list" where
  "jobs_get query db =
     (let hasEquity = strict_eq (q_hasEquity query) (Str ''true'')
      in Job_multi_filter (q_title query) (q_minSalary query) (Bool hasEquity) db)"


section \<open>routes/companies.js\<close>


text \<open>\<^verbatim>\<open>typeof v === "string"\<close>.\<close>

fun is_string :: "jsval \<Rightarrow> bool" where
  "is_string (Str _) = True"
| "is_string _ = False"

text \<open>
  The number of statements \<^verbatim>\<open>Company.multi_filter\<close> sends to the database: one for
  each of its three comparison sets, up to the first that throws. \<^verbatim>\<open>name_filter\<close>
  throws before its statement when the name is not a string; a threshold the database
  cannot read makes the statement itself fail.
\<close>

definition Company_multi_filter_queries :: "jsval \<Rightarrow> jsval \<Rightarrow> jsval \<Rightarrow> nat" where
  "Company_multi_filter_queries str min' max' =
     (if truthy str \<and> \<not> is_string str then 0
      else if truthy min' \<and> as_int min' = NotAnInt then 2
      else 3)"




section \<open>The words of the specification\<close>

text \<open>The fragment \<^verbatim>\<open>"column"=$k\<close> of a \<^verbatim>\<open>SET\<close> clause.\<close>

definition fragment :: "string \<Rightarrow> nat \<Rightarrow> string" where
  "fragment column k = [CHR 0x22] @ column @ [CHR 0x22] @ ''=$'' @ string_of_nat k"


text \<open>The fields of a job and of a company as the data-access classes return them.\<close>

definition job_fields :: "string list" where
  "job_fields = [''title'', ''salary'', ''equity'', ''companyHandle'']"

definition company_fields :: "string list" where
  "company_fields = [''handle'', ''name'', ''description'', ''numEmployees'', ''logoUrl'']"

text \<open>Substring: \<open>contains s t\<close> when \<open>s\<close> occurs in \<open>t\<close> as a run of consecutive
  characters.\<close>

fun starts_with :: "string \<Rightarrow> string \<Rightarrow> bool" where
  "starts_with [] t = True"
| "starts_with (c # cs) [] = False"
| "starts_with (c # cs) (x # xs) = (c = x \<and> starts_with cs xs)"

fun contains :: "string \<Rightarrow> string \<Rightarrow> bool" where
  "contains s [] = (s = [])"
| "contains s (x # xs) = (starts_with s (x # xs) \<or> contains s xs)"

text \<open>A search string that holds none of the characters LIKE reads specially.\<close>

definition plain :: "string \<Rightarrow> bool" where
  "plain s = list_all (\<lambda>c. c \<noteq> CHR ''%'' \<and> c \<noteq> CHR ''_'' \<and> c \<noteq> CHR 0x5C) s"

section \<open>Example tables\<close>

text \<open>The rows the route tests start from (\<^verbatim>\<open>routes/jobs.test.js\<close>): four jobs with
  four different titles.\<close>

definition j1 :: job_row where
  "j1 = \<lparr>job_id = 1, title = ''j1'', salary = Some 1000, equity = Some ''0.1'',
         company_handle = ''c1''\<rparr>"

definition j2 :: job_row where
  "j2 = \<lparr>job_id = 2, title = ''j2'', salary = Some 2000, equity = Some ''0.2'',
         company_handle = ''c2''\<rparr>"

definition j3 :: job_row where
  "j3 = \<lparr>job_id = 3, title = ''j3'', salary = Some 3000, equity = Some ''0.3'',
         company_handle = ''c3''\<rparr>"

definition j4 :: job_row where
  "j4 = \<lparr>job_id = 4, title = ''j4'', salary = Some 4000, equity = None,
         company_handle = ''c3''\<rparr>"

definition c1 :: company_row where
  "c1 = \<lparr>handle = ''c1'', name = ''C1'', description = ''Desc1'', num_employees = Some 1,
         logo_url = Some ''http://c1.img''\<rparr>"

definition c2 :: company_row where
  "c2 = \<lparr>handle = ''c2'', name = ''C2'', description = ''Desc2'', num_employees = Some 2,
         logo_url = Some ''http://c2.img''\<rparr>"

definition c3 :: company_row where
  "c3 = \<lparr>handle = ''c3'', name = ''C3'', description = ''Desc3'', num_employees = Some 3,
         logo_url = Some ''http://c3.img''\<rparr>"

definition test_db :: db where
  "test_db = \<lparr>jobs = [j1, j2, j3, j4], companies = [c1, c2, c3], next_job_id = 5\<rparr>"

text \<open>Tables in which two rows share a title, and two a name: two jobs titled
  \<^verbatim>\<open>dev\<close> at two companies, a job without a salary, and two companies named
  \<^verbatim>\<open>Acme\<close>. No constraint of the data model forbids such rows.\<close>

definition dev1 :: job_row where
  "dev1 = \<lparr>job_id = 1, title = ''dev'', salary = Some 1000, equity = None,
           company_handle = ''acme1''\<rparr>"

definition dev2 :: job_row where
  "dev2 = \<lparr>job_id = 2, title = ''dev'', salary = Some 5000, equity = Some ''0.1'',
           company_handle = ''acme2''\<rparr>"

definition ops :: job_row where
  "ops = \<lparr>job_id = 3, title = ''ops'', salary = None, equity = None,
          company_handle = ''acme1''\<rparr>"

definition acme1 :: company_row where
  "acme1 = \<lparr>handle = ''acme1'', name = ''Acme'', description = ''Tools'',
            num_employees = Some 10, logo_url = None\<rparr>"

definition acme2 :: company_row where
  "acme2 = \<lparr>handle = ''acme2'', name = ''Acme'', description = ''Anvils'',
            num_employees = Some 1000, logo_url = None\<rparr>"

definition shared_db :: db where
  "shared_db = \<lparr>jobs = [dev1, dev2, ops], companies = [acme1, acme2], next_job_id = 4\<rparr>"

text \<open>A field name that holds a double quote: \<^verbatim>\<open>title"='x', "salary\<close>.\<close>

definition crafted_field :: string where
  "crafted_field = ''title'' @ [CHR 0x22] @ ''='' @ [CHR 0x27] @ ''x'' @ [CHR 0x27]
                     @ '', '' @ [CHR 0x22] @ ''salary''"

text \<open>A schema that declares the keys only: ids and handles are unique.\<close>

definition keys_only :: "db \<Rightarrow> bool" where
  "keys_only d = (distinct (map job_id (jobs d)) \<and> distinct (map handle (companies d)))"

section \<open>Properties of the partial-update fragment builder\<close>

lemma sqlForPartialUpdate_empty:
  "sqlForPartialUpdate [] jsToSql = Inl (BadRequestError ''No data'')"
  by (simp add: sqlForPartialUpdate_def)

lemma sqlForPartialUpdate_nonempty:
  assumes "dataToUpdate \<noteq> []"
  shows "\<exists>r. sqlForPartialUpdate dataToUpdate jsToSql = Inr r"
  using assms by (simp add: sqlForPartialUpdate_def Let_def)

text \<open>
  C6. \<^verbatim>\<open>sqlForPartialUpdate\<close> throws exactly when the mapping has no fields, the error it
  throws is the \<open>BadRequestError\<close>, and on every other mapping it returns a result.
\<close>

theorem sqlForPartialUpdate_throws_iff_empty:
  "((\<exists>e. sqlForPartialUpdate dataToUpdate jsToSql = Inl e) = (dataToUpdate = []))
   \<and> ((sqlForPartialUpdate dataToUpdate jsToSql = Inl (BadRequestError ''No data''))
        = (dataToUpdate = []))
   \<and> ((\<exists>r. sqlForPartialUpdate dataToUpdate jsToSql = Inr r) = (dataToUpdate \<noteq> []))"
  by (cases dataToUpdate) (simp_all add: sqlForPartialUpdate_def Let_def)




section \<open>Rows and what the statements return\<close>

lemma filter_eq_Cons_mem: "filter P xs = z # zs \<Longrightarrow> P z \<and> z \<in> set xs"
proof -
  assume a: "filter P xs = z # zs"
  have "z \<in> set (filter P xs)" by (simp add: a)
  then show ?thesis by simp
qed

lemma job_view_fields: "map fst (job_view r) = job_fields"
  by (simp add: job_view_def job_fields_def)

lemma company_view_fields: "map fst (company_view r) = company_fields"
  by (simp add: company_view_def company_fields_def)

lemma fld_job_view_title: "fld (job_view r) ''title'' = Str (title r)"
  by (simp add: fld_def job_view_def job_col_def)

lemma fld_company_view_name: "fld (company_view r) ''name'' = Str (name r)"
  by (simp add: fld_def company_view_def company_col_def)

lemma Job_findAll_set: "set (Job_findAll db) = job_view ` set (jobs db)"
  by (simp add: Job_findAll_def)

lemma Company_findAll_set: "set (Company_findAll db) = company_view ` set (companies db)"
  by (simp add: Company_findAll_def)

lemma Job_title_filter_views:
  "Job_title_filter str db = Inr xs \<Longrightarrow> set xs \<subseteq> job_view ` set (jobs db)"
  by (auto simp: Job_title_filter_def Let_def split: jsval.splits option.splits)

lemma Job_minSalary_filter_views:
  "Job_minSalary_filter num db = Inr xs \<Longrightarrow> set xs \<subseteq> job_view ` set (jobs db)"
  by (auto simp: Job_minSalary_filter_def split: int_param.splits)

lemma Job_hasEquity_filter_views:
  "Job_hasEquity_filter h db = Inr xs \<Longrightarrow> set xs \<subseteq> job_view ` set (jobs db)"
  by (auto simp: Job_hasEquity_filter_def split: if_splits)

lemma Job_titleRes_views:
  "Job_titleRes str db = Inr xs \<Longrightarrow> set xs \<subseteq> job_view ` set (jobs db)"
  using Job_title_filter_views [of str db xs]
  by (auto simp: Job_titleRes_def Job_findAll_set split: if_splits)

lemma Job_minSalaryRes_views:
  "Job_minSalaryRes m db = Inr xs \<Longrightarrow> set xs \<subseteq> job_view ` set (jobs db)"
  using Job_minSalary_filter_views [of m db xs]
  by (auto simp: Job_minSalaryRes_def Job_findAll_set split: if_splits)

lemma Job_equityRes_views:
  "Job_equityRes h db = Inr xs \<Longrightarrow> set xs \<subseteq> job_view ` set (jobs db)"
  using Job_hasEquity_filter_views [of h db xs]
  by (auto simp: Job_equityRes_def Job_findAll_set split: if_splits)

lemma Job_multi_filter_views:
  assumes "Job_multi_filter str minSalary hasEquity db = Inr xs"
  shows "set xs \<subseteq> job_view ` set (jobs db)"
proof -
  from assms obtain titleRes where t: "Job_titleRes str db = Inr titleRes"
    and sub: "set xs \<subseteq> set titleRes"
    by (auto simp: Job_multi_filter_def split: sum.splits)
  from Job_titleRes_views [OF t] sub show ?thesis by blast
qed

lemma Company_name_filter_views:
  "Company_name_filter str db = Inr xs \<Longrightarrow> set xs \<subseteq> company_view ` set (companies db)"
  by (auto simp: Company_name_filter_def Let_def split: jsval.splits option.splits)

lemma Company_minEmployees_filter_views:
  "Company_minEmployees_filter num db = Inr xs
     \<Longrightarrow> set xs \<subseteq> company_view ` set (companies db)"
  by (auto simp: Company_minEmployees_filter_def split: int_param.splits)

lemma Company_maxEmployees_filter_views:
  "Company_maxEmployees_filter num db = Inr xs
     \<Longrightarrow> set xs \<subseteq> company_view ` set (companies db)"
  by (auto simp: Company_maxEmployees_filter_def split: int_param.splits)

lemma Company_nameResults_views:
  "Company_nameResults str db = Inr xs \<Longrightarrow> set xs \<subseteq> company_view ` set (companies db)"
  using Company_name_filter_views [of str db xs]
  by (auto simp: Company_nameResults_def Company_findAll_set split: if_splits)

lemma Company_minResults_views:
  "Company_minResults m db = Inr xs \<Longrightarrow> set xs \<subseteq> company_view ` set (companies db)"
  using Company_minEmployees_filter_views [of m db xs]
  by (auto simp: Company_minResults_def Company_findAll_set split: if_splits)

lemma Company_maxResults_views:
  "Company_maxResults m db = Inr xs \<Longrightarrow> set xs \<subseteq> company_view ` set (companies db)"
  using Company_maxEmployees_filter_views [of m db xs]
  by (auto simp: Company_maxResults_def Company_findAll_set split: if_splits)

section \<open>LIKE on a plain search string is substring search\<close>

lemma starts_with_iff: "starts_with s t = (\<exists>v. t = s @ v)"
  by (induction s t rule: starts_with.induct) auto

lemma contains_iff: "contains s t = (\<exists>u v. t = u @ s @ v)"
proof (induction t)
  case Nil
  then show ?case by simp
next
  case (Cons x xs)
  show ?case
  proof
    assume "contains s (x # xs)"
    then consider "starts_with s (x # xs)" | "contains s xs" by auto
    then show "\<exists>u v. x # xs = u @ s @ v"
    proof cases
      case 1
      then obtain v where "x # xs = s @ v" by (auto simp: starts_with_iff)
      then have "x # xs = [] @ s @ v" by simp
      then show ?thesis by blast
    next
      case 2
      with Cons obtain u v where "xs = u @ s @ v" by blast
      then have "x # xs = (x # u) @ s @ v" by simp
      then show ?thesis by blast
    qed
  next
    assume "\<exists>u v. x # xs = u @ s @ v"
    then obtain u v where e: "x # xs = u @ s @ v" by blast
    show "contains s (x # xs)"
    proof (cases u)
      case Nil
      with e have "starts_with s (x # xs)" by (auto simp: starts_with_iff)
      then show ?thesis by simp
    next
      case (Cons y ys)
      with e have "xs = ys @ s @ v" by simp
      with Cons.IH have "contains s xs" by blast
      then show ?thesis by simp
    qed
  qed
qed

lemma like_match_AnyRun_all: "like_match [AnyRun] t"
  by (induction t) auto

lemma like_match_lits: "like_match (map Lit s @ [AnyRun]) t = starts_with s t"
  by (induction s t rule: starts_with.induct) (auto simp: like_match_AnyRun_all)

lemma like_match_contains: "like_match (AnyRun # map Lit s @ [AnyRun]) t = contains s t"
proof (induction t)
  case Nil
  show ?case by (cases s) (simp_all add: like_match_lits)
next
  case (Cons x xs)
  then show ?case by (simp add: like_match_lits)
qed

lemma like_tokens_plain:
  "plain s \<Longrightarrow> like_tokens (s @ rest) =
     (case like_tokens rest of None \<Rightarrow> None | Some p \<Rightarrow> Some (map Lit s @ p))"
  by (induction s) (auto simp: plain_def split: option.splits)

lemma like_tokens_pattern:
  assumes "plain s"
  shows "like_tokens (''%'' @ s @ ''%'') = Some (AnyRun # map Lit s @ [AnyRun])"
  using like_tokens_plain [OF assms, of "''%''"] by simp

text \<open>The pattern the filters build always ends in \<^verbatim>\<open>%\<close>, so it never ends in a lone
  backslash: the database reads every such pattern.\<close>

lemma like_tokens_total: "\<exists>p. like_tokens (s @ ''%'') = Some p"
proof (induction s rule: like_tokens.induct)
  case 1
  then show ?case by simp
next
  case (2 c cs)
  then show ?case by (cases cs) auto
qed

lemma Job_title_filter_returns: "\<exists>found. Job_title_filter (Str s) db = Inr found"
proof -
  from like_tokens_total [of "toLowerCase s"] obtain p
    where "like_tokens (toLowerCase s @ ''%'') = Some p" by blast
  then show ?thesis by (simp add: Job_title_filter_def Let_def)
qed

lemma Company_name_filter_returns: "\<exists>found. Company_name_filter (Str s) db = Inr found"
proof -
  from like_tokens_total [of "toLowerCase s"] obtain p
    where "like_tokens (toLowerCase s @ ''%'') = Some p" by blast
  then show ?thesis by (simp add: Company_name_filter_def Let_def)
qed

lemma lower_char_percent: "(lower_char c = CHR ''%'') = (c = CHR ''%'')"
  by (auto simp: lower_char_def split: if_splits)

lemma lower_char_underscore: "(lower_char c = CHR ''_'') = (c = CHR ''_'')"
  by (auto simp: lower_char_def split: if_splits)

lemma lower_char_backslash: "(lower_char c = CHR 0x5C) = (c = CHR 0x5C)"
  by (auto simp: lower_char_def split: if_splits)

lemma plain_toLowerCase: "plain (toLowerCase s) = plain s"
  by (induction s)
    (simp_all add: plain_def toLowerCase_def lower_char_percent lower_char_underscore
       lower_char_backslash)

section \<open>The comparison sets of the combined filters\<close>

lemma some_title_eq:
  assumes "set M \<subseteq> job_view ` set (jobs db)"
  shows "list_ex (\<lambda>m. strict_eq (fld m ''title'') (fld (job_view r) ''title'')) M
           = (fld (job_view r) ''title'' \<in> (\<lambda>x. fld x ''title'') ` set M)"
proof -
  have "strict_eq (fld m ''title'') (fld (job_view r) ''title'')
          = (fld (job_view r) ''title'' = fld m ''title'')" if "m \<in> set M" for m
  proof -
    from that assms obtain r' where "m = job_view r'" by blast
    then show ?thesis by (auto simp: fld_job_view_title)
  qed
  then show ?thesis by (auto simp: list_ex_iff)
qed

lemma some_name_eq:
  assumes "set M \<subseteq> company_view ` set (companies db)"
  shows "list_ex (\<lambda>m. strict_eq (fld m ''name'') (fld (company_view r) ''name'')) M
           = (fld (company_view r) ''name'' \<in> (\<lambda>x. fld x ''name'') ` set M)"
proof -
  have "strict_eq (fld m ''name'') (fld (company_view r) ''name'')
          = (fld (company_view r) ''name'' = fld m ''name'')" if "m \<in> set M" for m
  proof -
    from that assms obtain r' where "m = company_view r'" by blast
    then show ?thesis by (auto simp: fld_company_view_name)
  qed
  then show ?thesis by (auto simp: list_ex_iff)
qed

lemma Job_multi_filter_common:
  assumes t: "Job_titleRes str db = Inr T"
    and m: "Job_minSalaryRes minSalary db = Inr M"
    and e: "Job_equityRes hasEquity db = Inr E"
  shows "Job_multi_filter str minSalary hasEquity db =
           Inr (filter (\<lambda>job. fld job ''title'' \<in> (\<lambda>x. fld x ''title'') ` set M
                             \<and> fld job ''title'' \<in> (\<lambda>x. fld x ''title'') ` set E) T)"
proof -
  have "list_ex (\<lambda>x. strict_eq (fld x ''title'') (fld job ''title'')) M
          = (fld job ''title'' \<in> (\<lambda>x. fld x ''title'') ` set M)
        \<and> list_ex (\<lambda>x. strict_eq (fld x ''title'') (fld job ''title'')) E
          = (fld job ''title'' \<in> (\<lambda>x. fld x ''title'') ` set E)"
    if "job \<in> set T" for job
  proof -
    from that Job_titleRes_views [OF t] obtain r where "job = job_view r" by blast
    then show ?thesis
      using some_title_eq [OF Job_minSalaryRes_views [OF m], of r]
            some_title_eq [OF Job_equityRes_views [OF e], of r] by simp
  qed
  then have "filter (\<lambda>job. list_ex (\<lambda>x. strict_eq (fld x ''title'') (fld job ''title'')) M
                        \<and> list_ex (\<lambda>x. strict_eq (fld x ''title'') (fld job ''title'')) E) T
           = filter (\<lambda>job. fld job ''title'' \<in> (\<lambda>x. fld x ''title'') ` set M
                             \<and> fld job ''title'' \<in> (\<lambda>x. fld x ''title'') ` set E) T"
    by (intro filter_cong) simp_all
  then show ?thesis by (simp add: Job_multi_filter_def t m e)
qed

lemma Company_multi_filter_common:
  assumes t: "Company_nameResults str db = Inr T"
    and m: "Company_minResults min' db = Inr M"
    and e: "Company_maxResults max' db = Inr E"
  shows "Company_multi_filter str min' max' db =
           Inr (filter (\<lambda>company. fld company ''name'' \<in> (\<lambda>x. fld x ''name'') ` set M
                                 \<and> fld company ''name'' \<in> (\<lambda>x. fld x ''name'') ` set E) T)"
proof -
  have "list_ex (\<lambda>x. strict_eq (fld x ''name'') (fld company ''name'')) M
          = (fld company ''name'' \<in> (\<lambda>x. fld x ''name'') ` set M)
        \<and> list_ex (\<lambda>x. strict_eq (fld x ''name'') (fld company ''name'')) E
          = (fld company ''name'' \<in> (\<lambda>x. fld x ''name'') ` set E)"
    if "company \<in> set T" for company
  proof -
    from that Company_nameResults_views [OF t] obtain r where "company = company_view r"
      by blast
    then show ?thesis
      using some_name_eq [OF Company_minResults_views [OF m], of r]
            some_name_eq [OF Company_maxResults_views [OF e], of r] by simp
  qed
  then have "filter (\<lambda>c. list_ex (\<lambda>x. strict_eq (fld x ''name'') (fld c ''name'')) M
                        \<and> list_ex (\<lambda>x. strict_eq (fld x ''name'') (fld c ''name'')) E) T
           = filter (\<lambda>c. fld c ''name'' \<in> (\<lambda>x. fld x ''name'') ` set M
                             \<and> fld c ''name'' \<in> (\<lambda>x. fld x ''name'') ` set E) T"
    by (intro filter_cong) simp_all
  then show ?thesis by (simp add: Company_multi_filter_def t m e)
qed

lemma Job_titleRes_supplied:
  assumes "s \<noteq> []" and "plain s"
  shows "Job_titleRes (Str s) db =
           Inr (map job_view (sort_key title
                 (filter (\<lambda>r. contains (toLowerCase s) (toLowerCase (title r))) (jobs db))))"
proof -
  have "like_tokens (''%'' @ toLowerCase s @ ''%'')
          = Some (AnyRun # map Lit (toLowerCase s) @ [AnyRun])"
    using assms by (intro like_tokens_pattern) (simp add: plain_toLowerCase)
  then show ?thesis
    using assms
    by (simp add: Job_titleRes_def Job_title_filter_def Let_def like_match_contains
          del: like_tokens.simps)
qed

lemma Company_nameResults_supplied:
  assumes "s \<noteq> []" and "plain s"
  shows "Company_nameResults (Str s) db =
           Inr (map company_view (sort_key name
                 (filter (\<lambda>r. contains (toLowerCase s) (toLowerCase (name r)))
                    (companies db))))"
proof -
  have "like_tokens (''%'' @ toLowerCase s @ ''%'')
          = Some (AnyRun # map Lit (toLowerCase s) @ [AnyRun])"
    using assms by (intro like_tokens_pattern) (simp add: plain_toLowerCase)
  then show ?thesis
    using assms
    by (simp add: Company_nameResults_def Company_name_filter_def Let_def
          like_match_contains del: like_tokens.simps)
qed

lemma col_ge_iff: "col_ge v n = (\<exists>k. v = Some k \<and> n \<le> k)"
  by (cases v) (simp_all add: col_ge_def)

lemma col_le_iff: "col_le v n = (\<exists>k. v = Some k \<and> k \<le> n)"
  by (cases v) (simp_all add: col_le_def)

lemma Job_minSalaryRes_supplied:
  assumes "truthy m" and "as_int m = IntVal n"
  shows "Job_minSalaryRes m db =
           Inr (map job_view (sort_key (\<lambda>r. int_key (salary r))
                 (filter (\<lambda>r. \<exists>k. salary r = Some k \<and> n \<le> k) (jobs db))))"
  using assms by (simp add: Job_minSalaryRes_def Job_minSalary_filter_def col_ge_iff)

lemma Company_minResults_supplied:
  assumes "truthy m" and "as_int m = IntVal n"
  shows "Company_minResults m db =
           Inr (map company_view (sort_key (\<lambda>r. int_key (num_employees r))
                 (filter (\<lambda>r. \<exists>k. num_employees r = Some k \<and> n \<le> k) (companies db))))"
  using assms
  by (simp add: Company_minResults_def Company_minEmployees_filter_def col_ge_iff)

lemma Company_maxResults_supplied:
  assumes "truthy m" and "as_int m = IntVal n"
  shows "Company_maxResults m db =
           Inr (map company_view (sort_key (\<lambda>r. int_key (num_employees r))
                 (filter (\<lambda>r. \<exists>k. num_employees r = Some k \<and> k \<le> n) (companies db))))"
  using assms
  by (simp add: Company_maxResults_def Company_maxEmployees_filter_def col_le_iff)

lemma Job_equityRes_supplied:
  "Job_equityRes (Bool True) db =
     Inr (map job_view (sort_key title (filter (\<lambda>r. equity r \<noteq> None) (jobs db))))"
  by (simp add: Job_equityRes_def Job_hasEquity_filter_def)

lemma Job_unsupplied:
  assumes "\<not> truthy v"
  shows "Job_titleRes v db = Inr (Job_findAll db)
         \<and> Job_minSalaryRes v db = Inr (Job_findAll db)
         \<and> Job_equityRes v db = Inr (Job_findAll db)"
  using assms by (simp add: Job_titleRes_def Job_minSalaryRes_def Job_equityRes_def)

lemma Company_unsupplied:
  assumes "\<not> truthy v"
  shows "Company_nameResults v db = Inr (Company_findAll db)
         \<and> Company_minResults v db = Inr (Company_findAll db)
         \<and> Company_maxResults v db = Inr (Company_findAll db)"
  using assms
  by (simp add: Company_nameResults_def Company_minResults_def Company_maxResults_def)

section \<open>The combined filters\<close>

text \<open>
  C2, as the code has it. A criterion counts as supplied when its argument is truthy
  (a non-empty string, a number other than 0, \<^verbatim>\<open>true\<close>).
  \<^item> A supplied title or name that holds none of \<^verbatim>\<open>%\<close>, \<^verbatim>\<open>_\<close> and the backslash
    selects, from the whole table, the rows whose lower-cased title or name contains
    the lower-cased string; a supplied threshold that reads as the integer \<open>n\<close>
    selects the rows whose salary or employee count is not NULL and at least \<open>n\<close>
    (for the maximum of companies: at most \<open>n\<close>); a supplied equity flag selects the
    rows whose equity is not NULL.
  \<^item> A criterion that is not supplied has all rows of the table as its comparison
    set.
  \<^item> When the three queries return, the result is the rows of the title (name)
    set, in the order of that set, whose title (name) is the title (name) of some row
    of each of the other two sets.
\<close>

theorem multi_filter_comparison_sets:
  "(s \<noteq> [] \<and> plain s \<longrightarrow>
      Job_titleRes (Str s) db =
        Inr (map job_view (sort_key title
              (filter (\<lambda>r. contains (toLowerCase s) (toLowerCase (title r))) (jobs db))))
      \<and> Company_nameResults (Str s) db =
        Inr (map company_view (sort_key name
              (filter (\<lambda>r. contains (toLowerCase s) (toLowerCase (name r))) (companies db)))))
   \<and> (truthy m \<and> as_int m = IntVal n \<longrightarrow>
      Job_minSalaryRes m db =
        Inr (map job_view (sort_key (\<lambda>r. int_key (salary r))
              (filter (\<lambda>r. \<exists>k. salary r = Some k \<and> n \<le> k) (jobs db))))
      \<and> Company_minResults m db =
        Inr (map company_view (sort_key (\<lambda>r. int_key (num_employees r))
              (filter (\<lambda>r. \<exists>k. num_employees r = Some k \<and> n \<le> k) (companies db))))
      \<and> Company_maxResults m db =
        Inr (map company_view (sort_key (\<lambda>r. int_key (num_employees r))
              (filter (\<lambda>r. \<exists>k. num_employees r = Some k \<and> k \<le> n) (companies db)))))
   \<and> Job_equityRes (Bool True) db =
        Inr (map job_view (sort_key title (filter (\<lambda>r. equity r \<noteq> None) (jobs db))))
   \<and> (\<not> truthy v \<longrightarrow>
        Job_titleRes v db = Inr (Job_findAll db)
      \<and> Job_minSalaryRes v db = Inr (Job_findAll db)
      \<and> Job_equityRes v db = Inr (Job_findAll db)
      \<and> Company_nameResults v db = Inr (Company_findAll db)
      \<and> Company_minResults v db = Inr (Company_findAll db)
      \<and> Company_maxResults v db = Inr (Company_findAll db))
   \<and> Job_findAll db = map job_view (sort_key title (jobs db))
   \<and> Company_findAll db = map company_view (sort_key name (companies db))
   \<and> (Job_titleRes str db = Inr titleRes \<and> Job_minSalaryRes minSalary db = Inr minSalaryRes
        \<and> Job_equityRes hasEquity db = Inr equityRes \<longrightarrow>
      Job_multi_filter str minSalary hasEquity db =
        Inr (filter (\<lambda>job. fld job ''title'' \<in> (\<lambda>x. fld x ''title'') ` set minSalaryRes
                          \<and> fld job ''title'' \<in> (\<lambda>x. fld x ''title'') ` set equityRes)
               titleRes))
   \<and> (Company_nameResults str db = Inr nameResults \<and> Company_minResults min' db = Inr minResults
        \<and> Company_maxResults max' db = Inr maxResults \<longrightarrow>
      Company_multi_filter str min' max' db =
        Inr (filter (\<lambda>company. fld company ''name'' \<in> (\<lambda>x. fld x ''name'') ` set minResults
                              \<and> fld company ''name'' \<in> (\<lambda>x. fld x ''name'') ` set maxResults)
               nameResults))"
proof (intro conjI impI)
  show "Job_findAll db = map job_view (sort_key title (jobs db))"
    by (simp add: Job_findAll_def)
  show "Company_findAll db = map company_view (sort_key name (companies db))"
    by (simp add: Company_findAll_def)
  show "Job_equityRes (Bool True) db =
        Inr (map job_view (sort_key title (filter (\<lambda>r. equity r \<noteq> None) (jobs db))))"
    by (rule Job_equityRes_supplied)
qed (simp_all add: Job_titleRes_supplied Company_nameResults_supplied
       Job_minSalaryRes_supplied Company_minResults_supplied Company_maxResults_supplied
       Job_unsupplied Company_unsupplied Job_multi_filter_common Company_multi_filter_common)

text \<open>On the rows of the route tests: title \<^verbatim>\<open>j\<close>, minimum salary \<^verbatim>\<open>3000\<close> and the
  equity flag leave \<^verbatim>\<open>j3\<close>; for companies, at least 2 and at most 2 employees leave
  \<^verbatim>\<open>c2\<close>.\<close>

theorem multi_filter_comparison_sets_witness:
  "(''j'' \<noteq> [] \<and> plain ''j'')
   \<and> (truthy (Str ''3000'') \<and> as_int (Str ''3000'') = IntVal 3000)
   \<and> \<not> truthy Undefined
   \<and> Job_titleRes (Str ''j'') test_db = Inr (map job_view [j1, j2, j3, j4])
   \<and> Job_minSalaryRes (Str ''3000'') test_db = Inr (map job_view [j3, j4])
   \<and> Job_equityRes (Bool True) test_db = Inr (map job_view [j1, j2, j3])
   \<and> Job_equityRes Undefined test_db = Inr (map job_view [j1, j2, j3, j4])
   \<and> Job_multi_filter (Str ''j'') (Str ''3000'') (Bool True) test_db = Inr [job_view j3]
   \<and> Job_multi_filter (Str ''j'') (Str ''3000'') Undefined test_db = Inr (map job_view [j3, j4])
   \<and> (truthy (Num 2) \<and> as_int (Num 2) = IntVal 2)
   \<and> Company_nameResults (Str ''j'') test_db = Inr []
   \<and> Company_nameResults Undefined test_db = Inr (map company_view [c1, c2, c3])
   \<and> Company_minResults (Num 2) test_db = Inr (map company_view [c2, c3])
   \<and> Company_maxResults (Num 2) test_db = Inr (map company_view [c1, c2])
   \<and> Company_multi_filter Undefined (Num 2) (Num 2) test_db = Inr [company_view c2]"
proof -
  have p1: "''j'' \<noteq> [] \<and> plain ''j''" by (simp add: plain_def)
  have p2: "truthy (Str ''3000'') \<and> as_int (Str ''3000'') = IntVal 3000" by code_simp
  have p3: "\<not> truthy Undefined" by simp
  have p4: "truthy (Num 2) \<and> as_int (Num 2) = IntVal 2" by (simp add: int4_def in_int4_def)
  note jobs = multi_filter_comparison_sets [of "''j''" test_db "Str ''3000''" 3000 Undefined
      "Str ''j''" "map job_view [j1, j2, j3, j4]" "Str ''3000''" "map job_view [j3, j4]"
      "Bool True" "map job_view [j1, j2, j3]" "[]" Undefined "[]" Undefined "[]"]
  note jobs' = multi_filter_comparison_sets [of "''j''" test_db "Str ''3000''" 3000 Undefined
      "Str ''j''" "map job_view [j1, j2, j3, j4]" "Str ''3000''" "map job_view [j3, j4]"
      Undefined "map job_view [j1, j2, j3, j4]" "[]" Undefined "[]" Undefined "[]"]
  note comp = multi_filter_comparison_sets [of "''j''" test_db "Num 2" 2 Undefined
      Undefined "[]" Undefined "[]" Undefined "[]"
      "map company_view [c1, c2, c3]" "Num 2" "map company_view [c2, c3]"
      "Num 2" "map company_view [c1, c2]"]
  have s1: "sort_key title (filter (\<lambda>r. contains (toLowerCase ''j'') (toLowerCase (title r)))
              (jobs test_db)) = [j1, j2, j3, j4]" by code_simp
  have s2: "sort_key (\<lambda>r. int_key (salary r))
              (filter (\<lambda>r. \<exists>k. salary r = Some k \<and> 3000 \<le> k) (jobs test_db)) = [j3, j4]"
    by (simp add: test_db_def j1_def j2_def j3_def j4_def int_key_def)
  have s3: "sort_key title (filter (\<lambda>r. equity r \<noteq> None) (jobs test_db)) = [j1, j2, j3]"
    by code_simp
  have s4: "Job_findAll test_db = map job_view [j1, j2, j3, j4]" by code_simp
  have s5: "sort_key name (filter (\<lambda>r. contains (toLowerCase ''j'') (toLowerCase (name r)))
              (companies test_db)) = []" by code_simp
  have s6: "Company_findAll test_db = map company_view [c1, c2, c3]" by code_simp
  have s7: "sort_key (\<lambda>r. int_key (num_employees r))
              (filter (\<lambda>r. \<exists>k. num_employees r = Some k \<and> 2 \<le> k) (companies test_db))
            = [c2, c3]"
    by (simp add: test_db_def c1_def c2_def c3_def int_key_def)
  have s8: "sort_key (\<lambda>r. int_key (num_employees r))
              (filter (\<lambda>r. \<exists>k. num_employees r = Some k \<and> k \<le> 2) (companies test_db))
            = [c1, c2]"
    by (simp add: test_db_def c1_def c2_def c3_def int_key_def)
  note c2 = conjunct2
  have t: "Job_titleRes (Str ''j'') test_db = Inr (map job_view [j1, j2, j3, j4])"
    using jobs [THEN conjunct1, THEN mp, OF p1, THEN conjunct1] by (simp only: s1)
  have m: "Job_minSalaryRes (Str ''3000'') test_db = Inr (map job_view [j3, j4])"
    using jobs [THEN c2, THEN conjunct1, THEN mp, OF p2, THEN conjunct1] by (simp only: s2)
  have e: "Job_equityRes (Bool True) test_db = Inr (map job_view [j1, j2, j3])"
    using jobs [THEN c2, THEN c2, THEN conjunct1] by (simp only: s3)
  have e': "Job_equityRes Undefined test_db = Inr (map job_view [j1, j2, j3, j4])"
    using jobs [THEN c2, THEN c2, THEN c2, THEN conjunct1, THEN mp, OF p3,
                THEN c2, THEN c2, THEN conjunct1]
    by (simp only: s4)
  have f1: "filter (\<lambda>job. fld job ''title'' \<in> (\<lambda>x. fld x ''title'') ` set (map job_view [j3, j4])
                          \<and> fld job ''title'' \<in> (\<lambda>x. fld x ''title'') ` set (map job_view [j1, j2, j3]))
               (map job_view [j1, j2, j3, j4]) = [job_view j3]"
    by code_simp
  have f2: "filter (\<lambda>job. fld job ''title'' \<in> (\<lambda>x. fld x ''title'') ` set (map job_view [j3, j4])
                          \<and> fld job ''title'' \<in> (\<lambda>x. fld x ''title'') ` set (map job_view [j1, j2, j3, j4]))
               (map job_view [j1, j2, j3, j4]) = map job_view [j3, j4]"
    by code_simp
  have r1: "Job_multi_filter (Str ''j'') (Str ''3000'') (Bool True) test_db = Inr [job_view j3]"
    using jobs [THEN c2, THEN c2, THEN c2, THEN c2, THEN c2, THEN c2, THEN conjunct1,
                THEN mp, OF conjI [OF t conjI [OF m e]]]
    by (simp only: f1)
  have r2: "Job_multi_filter (Str ''j'') (Str ''3000'') Undefined test_db
              = Inr (map job_view [j3, j4])"
    using jobs' [THEN c2, THEN c2, THEN c2, THEN c2, THEN c2, THEN c2, THEN conjunct1,
                 THEN mp, OF conjI [OF t conjI [OF m e']]]
    by (simp only: f2)
  have cn: "Company_nameResults (Str ''j'') test_db = Inr []"
    using comp [THEN conjunct1, THEN mp, OF p1, THEN c2] by (simp only: s5 list.map)
  have cn': "Company_nameResults Undefined test_db = Inr (map company_view [c1, c2, c3])"
    using comp [THEN c2, THEN c2, THEN c2, THEN conjunct1, THEN mp, OF p3,
                THEN c2, THEN c2, THEN c2, THEN conjunct1]
    by (simp only: s6)
  have cmin: "Company_minResults (Num 2) test_db = Inr (map company_view [c2, c3])"
    using comp [THEN c2, THEN conjunct1, THEN mp, OF p4, THEN c2, THEN conjunct1]
    by (simp only: s7)
  have cmax: "Company_maxResults (Num 2) test_db = Inr (map company_view [c1, c2])"
    using comp [THEN c2, THEN conjunct1, THEN mp, OF p4, THEN c2, THEN c2]
    by (simp only: s8)
  have f3: "filter (\<lambda>c. fld c ''name'' \<in> (\<lambda>x. fld x ''name'') ` set (map company_view [c2, c3])
                          \<and> fld c ''name'' \<in> (\<lambda>x. fld x ''name'') ` set (map company_view [c1, c2]))
               (map company_view [c1, c2, c3]) = [company_view c2]"
    by code_simp
  have r3: "Company_multi_filter Undefined (Num 2) (Num 2) test_db = Inr [company_view c2]"
    using comp [THEN c2, THEN c2, THEN c2, THEN c2, THEN c2, THEN c2, THEN c2,
                THEN mp, OF conjI [OF cn' conjI [OF cmin cmax]]]
    by (simp only: f3)
  from p1 p2 p3 p4 t m e e' r1 r2 cn cn' cmin cmax r3 show ?thesis by blast
qed

text \<open>
  C2 as the specification words it fails in two places. The search string \<^verbatim>\<open>_\<close> is
  supplied and selects every row with a title of at least one character, though no
  title here contains an underscore: the match is LIKE's, not substring search. And
  the threshold \<^verbatim>\<open>0\<close>, passed as a number, is falsy: its comparison set is all rows,
  the job without a salary included, and not the rows with a salary of at least 0.
\<close>

theorem multi_filter_supplied_counterexample:
  "Job_titleRes (Str ''_'') shared_db = Inr (map job_view [dev1, dev2, ops])
   \<and> \<not> contains (toLowerCase ''_'') (toLowerCase (title dev1))
   \<and> Job_multi_filter (Str ''_'') Undefined Undefined shared_db
       = Inr (map job_view [dev1, dev2, ops])
   \<and> Job_minSalaryRes (Num 0) shared_db = Inr (map job_view [dev1, dev2, ops])
   \<and> salary ops = None
   \<and> Job_multi_filter Undefined (Num 0) Undefined shared_db
       = Inr (map job_view [dev1, dev2, ops])"
  by code_simp

text \<open>
  C1 at two rows that share a title. The request \<^verbatim>\<open>GET /jobs?title=dev&minSalary=3000\<close>
  returns both jobs titled \<^verbatim>\<open>dev\<close>, though the salary of the first is 1000: the
  rows are matched on the title, not on the job. In the same way
  \<^verbatim>\<open>Company.multi_filter("acme", 500)\<close> returns both companies named \<^verbatim>\<open>Acme\<close>, though
  the first has 10 employees.
\<close>

theorem combined_filters_match_on_title:
  "jobs_get \<lparr>q_title = Str ''dev'', q_minSalary = Str ''3000'', q_hasEquity = Undefined\<rparr>
      shared_db = Inr (map job_view [dev1, dev2])
   \<and> salary dev1 = Some 1000
   \<and> Company_multi_filter (Str ''acme'') (Num 500) Undefined shared_db
       = Inr (map company_view [acme1, acme2])
   \<and> num_employees acme1 = Some 10"
  by code_simp

text \<open>
  C3 at two rows that share a title. \<^verbatim>\<open>GET /jobs?minSalary=3000\<close> returns the job
  with salary 1000 next to the one with salary 5000, and \<^verbatim>\<open>GET /jobs?hasEquity=true\<close>
  returns the job without equity next to the one with equity, because the two have
  the same title.
\<close>

theorem single_filter_matches_on_title:
  "jobs_get \<lparr>q_title = Undefined, q_minSalary = Str ''3000'', q_hasEquity = Undefined\<rparr>
      shared_db = Inr (map job_view [dev1, dev2])
   \<and> salary dev1 = Some 1000
   \<and> jobs_get \<lparr>q_title = Undefined, q_minSalary = Undefined, q_hasEquity = Str ''true''\<rparr>
      shared_db = Inr (map job_view [dev1, dev2])
   \<and> equity dev1 = None"
  by code_simp

section \<open>The combined filter, row by row\<close>

lemma filter_map_view: "filter P (map f xs) = map f (filter (\<lambda>x. P (f x)) xs)"
  by (induction xs) auto

lemma titles_of_views:
  "(\<lambda>x. fld x ''title'') ` set (map job_view rows) = (\<lambda>r. Str (title r)) ` set rows"
  by (auto simp: fld_job_view_title image_iff)

text \<open>The result of \<^verbatim>\<open>Job.multi_filter\<close> row by row: a job is returned when it
  meets the title criterion and some job with its title meets the salary criterion
  and some job with its title meets the equity criterion.\<close>

lemma Job_multi_filter_rows:
  assumes t: "\<not> truthy str \<or> (str = Str s \<and> plain s)"
    and m: "\<not> truthy minSalary \<or> as_int minSalary = IntVal n"
    and e: "\<not> truthy hasEquity \<or> hasEquity = Bool True"
  shows "Job_multi_filter str minSalary hasEquity db =
    Inr (map job_view (sort_key title (filter
      (\<lambda>r. (truthy str \<longrightarrow> contains (toLowerCase s) (toLowerCase (title r)))
         \<and> (\<exists>r' \<in> set (jobs db). title r' = title r
               \<and> (truthy minSalary \<longrightarrow> (\<exists>k. salary r' = Some k \<and> n \<le> k)))
         \<and> (\<exists>r' \<in> set (jobs db). title r' = title r
               \<and> (truthy hasEquity \<longrightarrow> equity r' \<noteq> None)))
      (jobs db))))"
proof -
  let ?Pt = "\<lambda>r. truthy str \<longrightarrow> contains (toLowerCase s) (toLowerCase (title r))"
  let ?Pm = "\<lambda>r. truthy minSalary \<longrightarrow> (\<exists>k. salary r = Some k \<and> n \<le> k)"
  let ?Pe = "\<lambda>r. truthy hasEquity \<longrightarrow> equity r \<noteq> None"
  have T: "Job_titleRes str db = Inr (map job_view (sort_key title (filter ?Pt (jobs db))))"
  proof (cases "truthy str")
    case True
    with t have "str = Str s" "plain s" "s \<noteq> []" by auto
    with Job_titleRes_supplied [of s db] True show ?thesis by simp
  next
    case False
    with Job_unsupplied [of str db] show ?thesis by (simp add: Job_findAll_def)
  qed
  have M: "\<exists>Ms. Job_minSalaryRes minSalary db = Inr Ms
             \<and> set Ms = job_view ` set (filter ?Pm (jobs db))"
  proof (cases "truthy minSalary")
    case True
    with m have "as_int minSalary = IntVal n" by simp
    from Job_minSalaryRes_supplied [OF True this, of db] True show ?thesis by simp
  next
    case False
    with Job_unsupplied [of minSalary db] show ?thesis by (simp add: Job_findAll_def)
  qed
  have E: "Job_equityRes hasEquity db
             = Inr (map job_view (sort_key title (filter ?Pe (jobs db))))"
  proof (cases "truthy hasEquity")
    case True
    with e Job_equityRes_supplied [of db] show ?thesis by auto
  next
    case False
    with Job_unsupplied [of hasEquity db] show ?thesis by (simp add: Job_findAll_def)
  qed
  from M obtain Ms where M': "Job_minSalaryRes minSalary db = Inr Ms"
    and Ms: "set Ms = job_view ` set (filter ?Pm (jobs db))" by blast
  have in_M: "(fld (job_view r) ''title'' \<in> (\<lambda>x. fld x ''title'') ` set Ms)
              = (\<exists>r' \<in> set (jobs db). title r' = title r \<and> ?Pm r')" for r
    unfolding Ms by (auto simp: fld_job_view_title image_iff)
  have in_E: "(fld (job_view r) ''title'' \<in> (\<lambda>x. fld x ''title'')
                 ` set (map job_view (sort_key title (filter ?Pe (jobs db)))))
              = (\<exists>r' \<in> set (jobs db). title r' = title r \<and> ?Pe r')" for r
    by (auto simp: fld_job_view_title image_iff)
  show ?thesis
    unfolding Job_multi_filter_common [OF T M' E] filter_map_view in_M in_E filter_sort
    by (simp add: conj_commute conj_left_commute cong: conj_cong)
qed

text \<open>Where no two jobs share a title, the combined filter is the intersection of the
  criteria.\<close>

lemma Job_multi_filter_distinct_titles:
  assumes t: "\<not> truthy str \<or> (str = Str s \<and> plain s)"
    and m: "\<not> truthy minSalary \<or> as_int minSalary = IntVal n"
    and e: "\<not> truthy hasEquity \<or> hasEquity = Bool True"
    and d: "distinct (map title (jobs db))"
  shows "Job_multi_filter str minSalary hasEquity db =
    Inr (map job_view (sort_key title (filter
      (\<lambda>r. (truthy str \<longrightarrow> contains (toLowerCase s) (toLowerCase (title r)))
         \<and> (truthy minSalary \<longrightarrow> (\<exists>k. salary r = Some k \<and> n \<le> k))
         \<and> (truthy hasEquity \<longrightarrow> equity r \<noteq> None))
      (jobs db))))"
proof -
  have same: "r' = r" if "r \<in> set (jobs db)" "r' \<in> set (jobs db)" "title r' = title r" for r r'
    using d that by (meson distinct_map inj_onD)
  have "filter
      (\<lambda>r. (truthy str \<longrightarrow> contains (toLowerCase s) (toLowerCase (title r)))
         \<and> (\<exists>r' \<in> set (jobs db). title r' = title r
               \<and> (truthy minSalary \<longrightarrow> (\<exists>k. salary r' = Some k \<and> n \<le> k)))
         \<and> (\<exists>r' \<in> set (jobs db). title r' = title r
               \<and> (truthy hasEquity \<longrightarrow> equity r' \<noteq> None)))
      (jobs db)
    = filter
      (\<lambda>r. (truthy str \<longrightarrow> contains (toLowerCase s) (toLowerCase (title r)))
         \<and> (truthy minSalary \<longrightarrow> (\<exists>k. salary r = Some k \<and> n \<le> k))
         \<and> (truthy hasEquity \<longrightarrow> equity r \<noteq> None))
      (jobs db)"
    by (rule filter_cong [OF refl]) (use same in blast)
  with Job_multi_filter_rows [OF t m e, of db] show ?thesis by simp
qed

text \<open>No job that meets every criterion is missing from the result, whatever the
  titles.\<close>

lemma Job_multi_filter_keeps:
  assumes t: "\<not> truthy str \<or> (str = Str s \<and> plain s)"
    and m: "\<not> truthy minSalary \<or> as_int minSalary = IntVal n"
    and e: "\<not> truthy hasEquity \<or> hasEquity = Bool True"
    and r: "r \<in> set (jobs db)"
    and ok: "(truthy str \<longrightarrow> contains (toLowerCase s) (toLowerCase (title r)))
         \<and> (truthy minSalary \<longrightarrow> (\<exists>k. salary r = Some k \<and> n \<le> k))
         \<and> (truthy hasEquity \<longrightarrow> equity r \<noteq> None)"
  shows "\<exists>found. Job_multi_filter str minSalary hasEquity db = Inr found
           \<and> job_view r \<in> set found"
  using r ok unfolding Job_multi_filter_rows [OF t m e, of db] by auto

section \<open>The equity flag of the route\<close>

lemma strict_eq_Str: "strict_eq v (Str s) = (v = Str s)"
  by (cases v) auto

text \<open>
  C9. The handler of \<^verbatim>\<open>GET /jobs\<close> passes \<^verbatim>\<open>true\<close> for \<open>hasEquity\<close> exactly when
  the query parameter is the string \<^verbatim>\<open>true\<close>. For every other value, the absent
  parameter included, the equity comparison set is all rows and the answer is the
  answer to the same request without the parameter; for \<^verbatim>\<open>true\<close> the comparison
  set is the rows with an equity.
\<close>

theorem hasEquity_only_exact_true:
  "jobs_get query db =
      Job_multi_filter (q_title query) (q_minSalary query)
        (Bool (q_hasEquity query = Str ''true'')) db
   \<and> (q_hasEquity query \<noteq> Str ''true'' \<longrightarrow>
        Job_equityRes (Bool (q_hasEquity query = Str ''true'')) db = Inr (Job_findAll db)
        \<and> jobs_get query db = jobs_get (query\<lparr>q_hasEquity := Undefined\<rparr>) db)
   \<and> (q_hasEquity query = Str ''true'' \<longrightarrow>
        Job_equityRes (Bool (q_hasEquity query = Str ''true'')) db =
          Inr (map job_view (sort_key title (filter (\<lambda>r. equity r \<noteq> None) (jobs db)))))"
  by (simp add: jobs_get_def strict_eq_Str Job_equityRes_def Job_hasEquity_filter_def)

text \<open>On the rows of the route tests: \<^verbatim>\<open>TRUE\<close>, \<^verbatim>\<open>1\<close>, \<^verbatim>\<open>false\<close> and no parameter
  return all four jobs, \<^verbatim>\<open>true\<close> the three that have an equity.\<close>

theorem hasEquity_only_exact_true_witness:
  "Str ''TRUE'' \<noteq> Str ''true'' \<and> Str ''1'' \<noteq> Str ''true'' \<and> Str ''false'' \<noteq> Str ''true''
   \<and> Undefined \<noteq> Str ''true''
   \<and> jobs_get \<lparr>q_title = Undefined, q_minSalary = Undefined, q_hasEquity = Str ''TRUE''\<rparr> test_db
       = Inr (map job_view [j1, j2, j3, j4])
   \<and> jobs_get \<lparr>q_title = Undefined, q_minSalary = Undefined, q_hasEquity = Str ''1''\<rparr> test_db
       = Inr (map job_view [j1, j2, j3, j4])
   \<and> jobs_get \<lparr>q_title = Undefined, q_minSalary = Undefined, q_hasEquity = Str ''false''\<rparr> test_db
       = Inr (map job_view [j1, j2, j3, j4])
   \<and> jobs_get \<lparr>q_title = Undefined, q_minSalary = Undefined, q_hasEquity = Undefined\<rparr> test_db
       = Inr (map job_view [j1, j2, j3, j4])
   \<and> jobs_get \<lparr>q_title = Undefined, q_minSalary = Undefined, q_hasEquity = Str ''true''\<rparr> test_db
       = Inr (map job_view [j1, j2, j3])
   \<and> Job_equityRes (Bool (Str ''true'' = Str ''true'')) test_db = Inr (map job_view [j1, j2, j3])"
proof -
  let ?q = "\<lambda>h. \<lparr>q_title = Undefined, q_minSalary = Undefined, q_hasEquity = h\<rparr>"
  have absent: "jobs_get (?q Undefined) test_db = Inr (map job_view [j1, j2, j3, j4])"
    by code_simp
  have same: "jobs_get (?q h) test_db = jobs_get (?q Undefined) test_db"
    if "h \<noteq> Str ''true''" for h
    using hasEquity_only_exact_true [of "?q h" test_db, THEN conjunct2, THEN conjunct1] that
    by auto
  have s: "sort_key title (filter (\<lambda>r. equity r \<noteq> None) (jobs test_db)) = [j1, j2, j3]"
    by code_simp
  have yes: "Job_equityRes (Bool (Str ''true'' = Str ''true'')) test_db
               = Inr (map job_view [j1, j2, j3])"
    using hasEquity_only_exact_true [of "?q (Str ''true'')" test_db, THEN conjunct2,
            THEN conjunct2] s
    by auto
  have res: "jobs_get (?q (Str ''true'')) test_db = Inr (map job_view [j1, j2, j3])"
    by code_simp
  show ?thesis
    using absent same [of "Str ''TRUE''"] same [of "Str ''1''"] same [of "Str ''false''"]
      yes res
    by simp
qed

section \<open>What the Job class returns\<close>

lemma Job_get_view:
  "Job_get i db = Inr job \<Longrightarrow> \<exists>r \<in> set (jobs db). job = job_view r"
  by (auto simp: Job_get_def split: option.splits list.splits dest: filter_eq_Cons_mem)

lemma Job_update_view:
  "Job_update valid i data db = (Inr job, db') \<Longrightarrow> \<exists>r. job = job_view r"
  by (auto simp: Job_update_def Let_def split: sum.splits option.splits list.splits if_splits)

lemma Job_create_view:
  "Job_create valid data db = (Inr job, db') \<Longrightarrow> \<exists>r. job = job_view r"
  by (auto simp: Job_create_def Let_def split: option.splits if_splits)

text \<open>
  C10. Every job that \<^verbatim>\<open>Job.findAll\<close>, \<^verbatim>\<open>Job.get\<close>, \<^verbatim>\<open>Job.create\<close>, \<^verbatim>\<open>Job.update\<close> and
  \<^verbatim>\<open>Job.multi_filter\<close> return has exactly the fields title, salary, equity and
  companyHandle, in this order; the id of the row is not among them.
\<close>

theorem Job_results_hold_no_id:
  "(\<forall>job \<in> set (Job_findAll db). map fst job = job_fields)
   \<and> (\<forall>job. Job_get i db = Inr job \<longrightarrow> map fst job = job_fields)
   \<and> (\<forall>job db'. Job_create valid data db = (Inr job, db') \<longrightarrow> map fst job = job_fields)
   \<and> (\<forall>job db'. Job_update valid i data db = (Inr job, db') \<longrightarrow> map fst job = job_fields)
   \<and> (\<forall>found. Job_multi_filter str minSalary hasEquity db = Inr found \<longrightarrow>
          (\<forall>job \<in> set found. map fst job = job_fields))
   \<and> job_fields = [''title'', ''salary'', ''equity'', ''companyHandle'']
   \<and> ''id'' \<notin> set job_fields"
proof (intro conjI allI impI ballI)
  fix job assume "job \<in> set (Job_findAll db)"
  then show "map fst job = job_fields" by (auto simp: Job_findAll_set job_view_fields)
next
  fix job assume "Job_get i db = Inr job"
  from Job_get_view [OF this] show "map fst job = job_fields"
    by (auto simp: job_view_fields)
next
  fix job db' assume "Job_create valid data db = (Inr job, db')"
  from Job_create_view [OF this] show "map fst job = job_fields"
    by (auto simp: job_view_fields)
next
  fix job db' assume "Job_update valid i data db = (Inr job, db')"
  from Job_update_view [OF this] show "map fst job = job_fields"
    by (auto simp: job_view_fields)
next
  fix found job
  assume "Job_multi_filter str minSalary hasEquity db = Inr found" and "job \<in> set found"
  with Job_multi_filter_views [of str minSalary hasEquity db found]
  show "map fst job = job_fields" by (auto simp: job_view_fields)
next
  show "job_fields = [''title'', ''salary'', ''equity'', ''companyHandle'']"
    by (simp add: job_fields_def)
next
  show "''id'' \<notin> set job_fields" by (simp add: job_fields_def)
qed

text \<open>On the rows of the route tests: the result of each of the five functions.\<close>

theorem Job_results_hold_no_id_witness:
  "Job_findAll test_db = map job_view [j1, j2, j3, j4]
   \<and> map fst (job_view j4) = job_fields
   \<and> Job_get (Str ''1'') test_db = Inr (job_view j1)
   \<and> map fst (job_view j1) = job_fields
   \<and> fst (Job_create keys_only
             [(''title'', Str ''puncher''), (''salary'', Num 12345), (''equity'', Str ''0.5''),
              (''companyHandle'', Str ''c1'')] test_db)
       = Inr [(''title'', Str ''puncher''), (''salary'', Num 12345), (''equity'', Str ''0.5''),
              (''companyHandle'', Str ''c1'')]
   \<and> map fst [(''title'', Str ''puncher''), (''salary'', Num 12345), (''equity'', Str ''0.5''),
               (''companyHandle'', Str ''c1'')] = job_fields
   \<and> fst (Job_update keys_only (Str ''1'') [(''title'', Str ''super j1'')] test_db)
       = Inr (job_view (j1\<lparr>title := ''super j1''\<rparr>))
   \<and> map fst (job_view (j1\<lparr>title := ''super j1''\<rparr>)) = job_fields
   \<and> Job_multi_filter (Str ''j'') (Str ''3000'') (Bool True) test_db = Inr [job_view j3]
   \<and> map fst (job_view j3) = job_fields"
proof -
  let ?new = "[(''title'', Str ''puncher''), (''salary'', Num 12345), (''equity'', Str ''0.5''),
               (''companyHandle'', Str ''c1'')]"
  let ?made = "\<lparr>job_id = 5, title = ''puncher'', salary = Some 12345, equity = Some ''0.5'',
                company_handle = ''c1''\<rparr>"
  note c2 = conjunct2
  note A = Job_results_hold_no_id [of test_db "Str ''1''" keys_only ?new "Str ''j''" "Str ''3000''"
             "Bool True"]
  note B = Job_results_hold_no_id [of test_db "Str ''1''" keys_only "[(''title'', Str ''super j1'')]"
             "Str ''j''" "Str ''3000''" "Bool True"]
  have all: "Job_findAll test_db = map job_view [j1, j2, j3, j4]" by code_simp
  then have "job_view j4 \<in> set (Job_findAll test_db)" by simp
  from A [THEN conjunct1, rule_format, OF this]
  have f4: "map fst (job_view j4) = job_fields" .
  have get: "Job_get (Str ''1'') test_db = Inr (job_view j1)" by code_simp
  from A [THEN c2, THEN conjunct1, rule_format, OF get]
  have f1: "map fst (job_view j1) = job_fields" .
  have create: "Job_create keys_only ?new test_db =
      (Inr ?new, test_db\<lparr>jobs := jobs test_db @ [?made], next_job_id := 6\<rparr>)"
    by code_simp
  from A [THEN c2, THEN c2, THEN conjunct1, rule_format, OF create]
  have fc: "map fst ?new = job_fields" .
  have update: "Job_update keys_only (Str ''1'') [(''title'', Str ''super j1'')] test_db =
      (Inr (job_view (j1\<lparr>title := ''super j1''\<rparr>)),
       test_db\<lparr>jobs := [j1\<lparr>title := ''super j1''\<rparr>, j2, j3, j4]\<rparr>)"
    by code_simp
  from B [THEN c2, THEN c2, THEN c2, THEN conjunct1, rule_format, OF update]
  have fu: "map fst (job_view (j1\<lparr>title := ''super j1''\<rparr>)) = job_fields" .
  have multi: "Job_multi_filter (Str ''j'') (Str ''3000'') (Bool True) test_db
                 = Inr [job_view j3]"
    by code_simp
  from A [THEN c2, THEN c2, THEN c2, THEN c2, THEN conjunct1, rule_format, OF multi]
  have f3: "map fst (job_view j3) = job_fields" by simp
  from all f4 get f1 create fc update fu multi f3 show ?thesis by simp
qed

section \<open>Reading and removing by key\<close>


lemma with_id_NotAnInt: "as_int key = NotAnInt \<Longrightarrow> with_id (bind_param key) = None"
  by (cases key) (auto simp: with_id_def bind_param_def)








lemma Job_key_refused:
  "as_int key = NotAnInt \<Longrightarrow>
     Job_get key db = Inl DbError \<and> Job_remove key db = (Inl DbError, db)"
  by (simp add: Job_get_def Job_remove_def with_id_NotAnInt)











section \<open>Partial updates\<close>

text \<open>
  C7 fails on the code. \<^verbatim>\<open>Job.update\<close> translates the field \<^verbatim>\<open>companyHandle\<close> to
  \<^verbatim>\<open>company_Handle\<close> and \<^verbatim>\<open>sqlForPartialUpdate\<close> quotes the name, so the statement
  assigns \<^verbatim>\<open>"company_Handle"\<close>, which is no column of \<^verbatim>\<open>jobs\<close>: the column is
  \<^verbatim>\<open>company_handle\<close>. Whatever the key, the value and the state, an update whose body
  names \<^verbatim>\<open>companyHandle\<close> alone throws the error of the database and changes nothing:
  job 1 of the route tests keeps its company \<^verbatim>\<open>c1\<close>, where the body asked for \<^verbatim>\<open>c2\<close>.
  \<^verbatim>\<open>Company.update\<close>, whose table holds the names of the columns as they are, sets
  the field it is given, and so does \<^verbatim>\<open>Job.update\<close> for \<^verbatim>\<open>salary\<close>.

  The field names go into the text of the statement as they are. The body with the
  one field \<^verbatim>\<open>title"='x', "salary\<close> and the value 5 makes the \<^verbatim>\<open>SET\<close> clause
  \<^verbatim>\<open>"title"='x', "salary"=$1\<close>: the update returns, and the row has a new title and
  a new salary, two columns of which the body names neither.
\<close>

theorem Job_update_companyHandle_refused:
  "Job_update valid key [(''companyHandle'', v)] db = (Inl DbError, db)
   \<and> sqlForPartialUpdate [(''companyHandle'', Str ''c2'')] Job_jsToSql
       = Inr \<lparr>setCols = fragment ''company_Handle'' 1, values_of = [Str ''c2'']\<rparr>
   \<and> job_set ''company_Handle'' (Str ''c2'') = None
   \<and> Job_get (Str ''1'') test_db = Inr (job_view j1)
   \<and> fld (job_view j1) ''companyHandle'' = Str ''c1''
   \<and> Job_update keys_only (Str ''1'') [(''companyHandle'', Str ''c2'')] test_db
       = (Inl DbError, test_db)
   \<and> Job_update keys_only (Str ''1'') [(''salary'', Num 5000)] test_db
       = (Inr (job_view (j1\<lparr>salary := Some 5000\<rparr>)),
          test_db\<lparr>jobs := [j1\<lparr>salary := Some 5000\<rparr>, j2, j3, j4]\<rparr>)
   \<and> Company_update keys_only ''c1'' [(''numEmployees'', Num 10)] test_db
       = (Inr (company_view (c1\<lparr>num_employees := Some 10\<rparr>)),
          test_db\<lparr>companies := [c1\<lparr>num_employees := Some 10\<rparr>, c2, c3]\<rparr>)
   \<and> sqlForPartialUpdate [(crafted_field, Num 5)] Job_jsToSql
       = Inr \<lparr>setCols = [CHR 0x22] @ ''title'' @ [CHR 0x22] @ ''='' @ [CHR 0x27] @ ''x''
                          @ [CHR 0x27] @ '', '' @ fragment ''salary'' 1,
              values_of = [Num 5]\<rparr>
   \<and> Job_update keys_only (Str ''1'') [(crafted_field, Num 5)] test_db
       = (Inr (job_view (j1\<lparr>title := ''x'', salary := Some 5\<rparr>)),
          test_db\<lparr>jobs := [j1\<lparr>title := ''x'', salary := Some 5\<rparr>, j2, j3, j4]\<rparr>)"
proof -
  have "Job_update valid key [(''companyHandle'', v)] db = (Inl DbError, db)" by code_simp
  moreover have "sqlForPartialUpdate [(''companyHandle'', Str ''c2'')] Job_jsToSql
       = Inr \<lparr>setCols = fragment ''company_Handle'' 1, values_of = [Str ''c2'']\<rparr>"
    by code_simp
  moreover have "job_set ''company_Handle'' (Str ''c2'') = None" by (simp add: job_set_def)
  moreover have "Job_get (Str ''1'') test_db = Inr (job_view j1)" by code_simp
  moreover have "fld (job_view j1) ''companyHandle'' = Str ''c1''" by code_simp
  moreover have "Job_update keys_only (Str ''1'') [(''companyHandle'', Str ''c2'')] test_db
       = (Inl DbError, test_db)"
    by code_simp
  moreover have "Job_update keys_only (Str ''1'') [(''salary'', Num 5000)] test_db
       = (Inr (job_view (j1\<lparr>salary := Some 5000\<rparr>)),
          test_db\<lparr>jobs := [j1\<lparr>salary := Some 5000\<rparr>, j2, j3, j4]\<rparr>)"
    by code_simp
  moreover have "Company_update keys_only ''c1'' [(''numEmployees'', Num 10)] test_db
       = (Inr (company_view (c1\<lparr>num_employees := Some 10\<rparr>)),
          test_db\<lparr>companies := [c1\<lparr>num_employees := Some 10\<rparr>, c2, c3]\<rparr>)"
    by code_simp
  moreover have "sqlForPartialUpdate [(crafted_field, Num 5)] Job_jsToSql
       = Inr \<lparr>setCols = [CHR 0x22] @ ''title'' @ [CHR 0x22] @ ''='' @ [CHR 0x27] @ ''x''
                          @ [CHR 0x27] @ '', '' @ fragment ''salary'' 1,
              values_of = [Num 5]\<rparr>"
    by code_simp
  moreover have "Job_update keys_only (Str ''1'') [(crafted_field, Num 5)] test_db
       = (Inr (job_view (j1\<lparr>title := ''x'', salary := Some 5\<rparr>)),
          test_db\<lparr>jobs := [j1\<lparr>title := ''x'', salary := Some 5\<rparr>, j2, j3, j4]\<rparr>)"
    by code_simp
  ultimately show ?thesis by blast
qed

section \<open>Bounds in the wrong order\<close>

text \<open>\<^verbatim>\<open>Company.multi_filter\<close> itself has no check of the two bounds: called with a
  minimum above the maximum it sends its three statements and returns what they
  select, here the two companies that share a name.\<close>

lemma Company_multi_filter_no_bounds_check:
  "Company_multi_filter Undefined (Num 500) (Num 100) shared_db
     = Inr (map company_view [acme1, acme2])
   \<and> Company_multi_filter_queries Undefined (Num 500) (Num 100) = 3"
  by code_simp



end
